theory Spec2Isabelle
  imports Complex_Main "HOL-Library.Word" "HOL-Library.AList"
begin

section \<open>Dynamic values and documents\<close>

text \<open>
  The services carry row payloads as \<^verbatim>\<open>map[string]interface{}\<close>. A dynamic value
  is one of the shapes the code distinguishes: \<^verbatim>\<open>nil\<close>, a bool, a \<^verbatim>\<open>float64\<close> (every
  JSON number after \<^verbatim>\<open>json.Unmarshal\<close>), an \<^verbatim>\<open>int64\<close>, an \<^verbatim>\<open>int\<close>, a string, a nested
  map or a slice. A \<^verbatim>\<open>float64\<close> is carried as the rational it denotes (JSON has no
  NaN or infinity). A map is an association list: Go ranges over a map in an
  unspecified order, and the list order stands for whichever order one run takes.
  A nil map is \<open>None\<close>.
\<close>

type_synonym int64 = "64 word"

datatype gvalue =
    VNil
  | VBool bool
  | VFloat64 rat
  | VInt64 int64
  | VInt int64
  | VString string
  | VMap "(string \<times> gvalue) list"
  | VSlice "gvalue list"

type_synonym doc = "(string \<times> gvalue) list"

text \<open>
  The conversion \<^verbatim>\<open>int64(v)\<close> of a \<^verbatim>\<open>float64\<close> drops the fraction (towards zero).
  Where the value does not fit, Go leaves the result to the implementation; the
  model gives what the conversion instruction of amd64 gives, the least \<^verbatim>\<open>int64\<close>.
\<close>

definition MinInt64 :: int64 where
  "MinInt64 = word_of_int (- (2 ^ 63))"

definition MaxInt64 :: int64 where
  "MaxInt64 = word_of_int (2 ^ 63 - 1)"

definition truncate_float64 :: "rat \<Rightarrow> int" where
  "truncate_float64 q = (if 0 \<le> q then \<lfloor>q\<rfloor> else \<lceil>q\<rceil>)"

definition int64_of_float64 :: "rat \<Rightarrow> int64" where
  "int64_of_float64 q =
     (if - (2 ^ 63) \<le> truncate_float64 q \<and> truncate_float64 q < 2 ^ 63
      then word_of_int (truncate_float64 q)
      else MinInt64)"

text \<open>Reading a key of a map that may be nil: \<^verbatim>\<open>v, ok := m[k]\<close>.\<close>

definition lookup :: "doc option \<Rightarrow> string \<Rightarrow> gvalue option" where
  "lookup m k = (case m of None \<Rightarrow> None | Some d \<Rightarrow> map_of d k)"

section \<open>The change event\<close>

text \<open>
  \<^verbatim>\<open>ReplicationEvent\<close> and \<^verbatim>\<open>SourceInfo\<close> are declared twice, field for field the
  same, in the publisher and in the consumer package; one record serves both.
  \<^verbatim>\<open>Timestamp\<close> is a clock reading.
\<close>

record SourceInfo =
  Contour :: string
  Database :: string

record ReplicationEvent =
  EventID :: string
  Timestamp :: nat
  Source :: SourceInfo
  Table :: string
  Operation :: string
  PrimaryKey :: "doc option"
  Before :: "doc option"
  After :: "doc option"

definition GetPrimaryKeyValue :: "ReplicationEvent \<Rightarrow> gvalue" where
  "GetPrimaryKeyValue e =
     (case lookup (PrimaryKey e) ''id'' of Some v \<Rightarrow> v | None \<Rightarrow> VNil)"

text \<open>The payload \<^verbatim>\<open>GetVersion\<close> reads: \<^verbatim>\<open>After\<close> when it is not nil, else \<^verbatim>\<open>Before\<close>.\<close>

definition selected_payload :: "ReplicationEvent \<Rightarrow> doc option" where
  "selected_payload e =
     (if After e \<noteq> None then After e
      else if Before e \<noteq> None then Before e
      else None)"

definition GetVersion :: "ReplicationEvent \<Rightarrow> int64" where
  "GetVersion e =
     (case selected_payload e of
        None \<Rightarrow> 0
      | Some data \<Rightarrow>
          (case map_of data ''version'' of
             Some (VFloat64 v) \<Rightarrow> int64_of_float64 v
           | Some (VInt64 v) \<Rightarrow> v
           | Some (VInt v) \<Rightarrow> v
           | _ \<Rightarrow> 0))"

text \<open>The three dynamic types the type switch of \<^verbatim>\<open>GetVersion\<close> accepts.\<close>

fun numeric :: "gvalue \<Rightarrow> bool" where
  "numeric (VFloat64 v) = True"
| "numeric (VInt64 v) = True"
| "numeric (VInt v) = True"
| "numeric v = False"

section \<open>The database as the applier sees it\<close>

text \<open>
  The relational engine and the ORM are collaborators outside the repository. The
  model keeps of them what the applier relies on. A table is the list of its rows, a
  row a document of column values, stored as the statement bound them (but for what
  the version trigger stamps) and compared structurally. \<^verbatim>\<open>id\<close> is the primary key
  of every replicated table: not null and unique. Every table of the model is a
  replicated one, set up by \<^verbatim>\<open>setup_replication_for_table\<close>, so that the version
  trigger runs before each of its inserts and updates. The ledger
  \<^verbatim>\<open>processed_events\<close> has \<^verbatim>\<open>event_id\<close> as primary key. \<open>now_value\<close> is what \<^verbatim>\<open>NOW()\<close>
  yields, as a column value. The queue the after-trigger writes is kept apart, with
  the trigger itself.
\<close>

record ProcessedEvent =
  pe_EventID :: string
  pe_ProcessedAt :: nat

record database =
  tables :: "(string \<times> doc list) list"
  processed_events :: "ProcessedEvent list"
  now_value :: gvalue

text \<open>
  The statements the consumer sends. \<open>InsertInto\<close> carries the column list, the
  placeholder list and the bound values of
  \<^verbatim>\<open>INSERT INTO t (c1, ..) VALUES (?, ..)\<close>; \<open>UpdateSet\<close> carries the SET clauses
  (each the text \<^verbatim>\<open>col = ?\<close>) and the bound values, the last of which is the key of
  \<^verbatim>\<open>WHERE id = ?\<close>.
\<close>

datatype stmt =
    BeginTx
  | CommitTx
  | RollbackTx
  | SelectProcessedEvent string
  | SetConstraintsAllDeferred
  | SelectVersion string gvalue
  | InsertInto string "string list" "string list" "gvalue list"
  | UpdateSet string "string list" "gvalue list"
  | DeleteFrom string gvalue
  | CreateProcessedEvent ProcessedEvent

text \<open>The statements that change a business table.\<close>

fun is_dml :: "stmt \<Rightarrow> bool" where
  "is_dml (InsertInto t cs ps vs) = True"
| "is_dml (UpdateSet t cs vs) = True"
| "is_dml (DeleteFrom t k) = True"
| "is_dml q = False"

text \<open>\<^verbatim>\<open>WHERE id = ?\<close>: a null key matches no row.\<close>

definition matches :: "gvalue \<Rightarrow> doc \<Rightarrow> bool" where
  "matches pk r = (pk \<noteq> VNil \<and> map_of r ''id'' = Some pk)"

text \<open>Scanning a column into an \<^verbatim>\<open>int64\<close>: a null or non-numeric value is a scan error.\<close>

fun scan_int64 :: "gvalue option \<Rightarrow> int64 option" where
  "scan_int64 (Some (VFloat64 v)) = Some (int64_of_float64 v)"
| "scan_int64 (Some (VInt64 v)) = Some v"
| "scan_int64 (Some (VInt v)) = Some v"
| "scan_int64 v = None"

text \<open>
  The outcomes the applier tells apart after the probe
  \<^verbatim>\<open>tx.Table(t).Select("version").Where("id = ?", pk).Scan(&existingVersion)\<close>:
  no error, with the value of \<^verbatim>\<open>existingVersion\<close>; the error
  \<^verbatim>\<open>gorm.ErrRecordNotFound\<close>; any other error. \<^verbatim>\<open>Scan\<close> does not raise
  \<^verbatim>\<open>gorm.ErrRecordNotFound\<close>: when no row matches it returns no error and leaves
  \<^verbatim>\<open>existingVersion\<close> at the zero it was declared with.
\<close>

datatype probe = Found int64 | ErrRecordNotFound | ProbeError

definition select_version :: "database \<Rightarrow> string \<Rightarrow> gvalue \<Rightarrow> probe" where
  "select_version d t pk =
     (case map_of (tables d) t of
        None \<Rightarrow> ProbeError
      | Some rows \<Rightarrow>
          (case filter (matches pk) rows of
             [] \<Rightarrow> Found 0
           | r # rs \<Rightarrow>
               (case scan_int64 (map_of r ''version'') of
                  None \<Rightarrow> ProbeError
                | Some v \<Rightarrow> Found v)))"

text \<open>
  \<^verbatim>\<open>increment_version_on_update\<close>, the trigger that runs before every insert and
  update of a row of a replicated table, whatever the session: the row to store,
  given \<^verbatim>\<open>NOW()\<close>, \<^verbatim>\<open>TG_OP\<close>, \<^verbatim>\<open>OLD\<close> and \<^verbatim>\<open>NEW\<close>. \<^verbatim>\<open>OLD.version + 1\<close> is null when
  \<^verbatim>\<open>OLD.version\<close> is, and out of range, which fails the statement, when
  \<^verbatim>\<open>OLD.version\<close> is the greatest \<^verbatim>\<open>BIGINT\<close>.
\<close>

definition bumped :: "doc \<Rightarrow> gvalue" where
  "bumped OLD =
     (case scan_int64 (map_of OLD ''version'') of
        None \<Rightarrow> VNil
      | Some v \<Rightarrow> VInt64 (v + 1))"

definition version_full :: "doc \<Rightarrow> bool" where
  "version_full OLD = (scan_int64 (map_of OLD ''version'') = Some MaxInt64)"

definition coalesce :: "string \<Rightarrow> gvalue \<Rightarrow> doc \<Rightarrow> doc" where
  "coalesce column v NEW =
     (case map_of NEW column of
        None \<Rightarrow> AList.update column v NEW
      | Some x \<Rightarrow> if x = VNil then AList.update column v NEW else NEW)"

definition increment_version_on_update ::
  "gvalue \<Rightarrow> string \<Rightarrow> doc \<Rightarrow> doc \<Rightarrow> doc option" where
  "increment_version_on_update now TG_OP OLD NEW =
     (if TG_OP = ''UPDATE'' then
        (if version_full OLD then None
         else Some (AList.update ''updated_at'' now
                      (AList.update ''version'' (bumped OLD) NEW)))
      else if TG_OP = ''INSERT'' then
        Some (coalesce ''updated_at'' now (coalesce ''version'' (VInt64 1) NEW))
      else Some NEW)"

text \<open>
  \<^verbatim>\<open>INSERT\<close>: the new row binds each listed column to its value and passes through
  the version trigger. The statement fails on an unknown table, on no column at all,
  on a placeholder count that differs from the column count or the value count, on a
  null or missing key and on a key that is already there.
\<close>

definition exec_insert ::
  "database \<Rightarrow> string \<Rightarrow> string list \<Rightarrow> string list \<Rightarrow> gvalue list \<Rightarrow> database option" where
  "exec_insert d t columns placeholders vals =
     (case map_of (tables d) t of
        None \<Rightarrow> None
      | Some rows \<Rightarrow>
          if columns = [] \<or> length placeholders \<noteq> length columns
             \<or> length vals \<noteq> length placeholders
          then None
          else
            (case map_of (zip columns vals) ''id'' of
               None \<Rightarrow> None
             | Some k \<Rightarrow>
                 if k = VNil \<or> filter (matches k) rows \<noteq> [] then None
                 else
                   (case increment_version_on_update (now_value d) ''INSERT'' []
                           (zip columns vals) of
                      None \<Rightarrow> None
                    | Some r \<Rightarrow>
                        Some (d\<lparr>tables := AList.update t (rows @ [r]) (tables d)\<rparr>))))"

text \<open>
  \<^verbatim>\<open>UPDATE t SET c1 = ?, .. WHERE id = ?\<close>: the column of a SET clause is the text
  before \<^verbatim>\<open> = ?\<close>. Each row of that key takes the assignments and passes through
  the version trigger; the statement fails when the trigger fails on one of them. An
  empty SET list is a syntax error; a key that matches no row changes nothing and is
  no error.
\<close>

definition clause_column :: "string \<Rightarrow> string" where
  "clause_column c = take (length c - 4) c"

fun assign :: "(string \<times> gvalue) list \<Rightarrow> doc \<Rightarrow> doc" where
  "assign [] r = r"
| "assign ((k, v) # kvs) r = assign kvs (AList.update k v r)"

definition exec_update ::
  "database \<Rightarrow> string \<Rightarrow> string list \<Rightarrow> gvalue list \<Rightarrow> database option" where
  "exec_update d t clauses args =
     (case map_of (tables d) t of
        None \<Rightarrow> None
      | Some rows \<Rightarrow>
          if clauses = [] \<or> length args \<noteq> Suc (length clauses) then None
          else
            (case those
                    (map (\<lambda>r. if matches (last args) r
                               then increment_version_on_update (now_value d) ''UPDATE'' r
                                      (assign (zip (map clause_column clauses) (butlast args)) r)
                               else Some r) rows) of
               None \<Rightarrow> None
             | Some rows' \<Rightarrow> Some (d\<lparr>tables := AList.update t rows' (tables d)\<rparr>)))"

definition exec_delete :: "database \<Rightarrow> string \<Rightarrow> gvalue \<Rightarrow> database option" where
  "exec_delete d t pk =
     (case map_of (tables d) t of
        None \<Rightarrow> None
      | Some rows \<Rightarrow>
          Some (d\<lparr>tables := AList.update t (filter (\<lambda>r. \<not> matches pk r) rows) (tables d)\<rparr>))"

text \<open>\<^verbatim>\<open>tx.Create(&processedEvent)\<close>: fails when the event id is already in the ledger.\<close>

definition exec_create_processed :: "database \<Rightarrow> ProcessedEvent \<Rightarrow> database option" where
  "exec_create_processed d p =
     (if pe_EventID p \<in> set (map pe_EventID (processed_events d)) then None
      else Some (d\<lparr>processed_events := processed_events d @ [p]\<rparr>))"

text \<open>What a statement passed to \<^verbatim>\<open>tx.Exec\<close> or \<^verbatim>\<open>tx.Create\<close> does to the data.\<close>

fun run :: "stmt \<Rightarrow> database \<Rightarrow> database option" where
  "run (InsertInto t cs ps vs) d = exec_insert d t cs ps vs"
| "run (UpdateSet t cs vs) d = exec_update d t cs vs"
| "run (DeleteFrom t k) d = exec_delete d t k"
| "run (CreateProcessedEvent p) d = exec_create_processed d p"
| "run q d = Some d"

text \<open>
  A transaction handle: the data as the transaction sees it, the statements sent so
  far, and the outcome of the coming round trips (\<open>True\<close>: the call fails, whatever
  the statement; an empty list: no infrastructure failure).
\<close>

record tx =
  store :: database
  faults :: "bool list"
  trace :: "stmt list"

definition send :: "stmt \<Rightarrow> tx \<Rightarrow> bool \<times> tx" where
  "send q t =
     (case faults t of
        [] \<Rightarrow> (True, t\<lparr>trace := trace t @ [q]\<rparr>)
      | f # fs \<Rightarrow> (\<not> f, t\<lparr>faults := fs, trace := trace t @ [q]\<rparr>))"

definition Exec :: "stmt \<Rightarrow> tx \<Rightarrow> bool \<times> tx" where
  "Exec q t =
     (case send q t of
        (False, t') \<Rightarrow> (False, t')
      | (True, t') \<Rightarrow>
          (case run q (store t') of
             None \<Rightarrow> (False, t')
           | Some d \<Rightarrow> (True, t'\<lparr>store := d\<rparr>)))"

definition probe_version :: "tx \<Rightarrow> string \<Rightarrow> gvalue \<Rightarrow> probe \<times> tx" where
  "probe_version t tableName pk =
     (case send (SelectVersion tableName pk) t of
        (False, t') \<Rightarrow> (ProbeError, t')
      | (True, t') \<Rightarrow> (select_version (store t') tableName pk, t'))"

section \<open>The applier\<close>

text \<open>
  The consumer's \<^verbatim>\<open>Config\<close>. \<^verbatim>\<open>Database\<close> is spelled \<open>cfg_Database\<close> here, the plain
  name being the field of \<open>SourceInfo\<close>.
\<close>

record Config =
  MyContour :: string
  cfg_Database :: string
  BatchSize :: int
  EventTimeout :: nat
  ConflictResolution :: string

text \<open>
  Every error the consumer code builds or passes on. An error that wraps another one
  keeps it as its argument; \<open>ExecFailed\<close> is the driver's own error, returned
  unwrapped by \<^verbatim>\<open>resolveConflict\<close>.
\<close>

datatype error =
    MissingAfter string
  | CheckExistingFailed
  | InsertFailed
  | UpdateFailed
  | DeleteFailed
  | ExecFailed
  | ConflictPolicyError
  | VersionConflictError int64 int64
  | UnknownStrategy string
  | UnknownOperation string
  | BeginFailed
  | CheckProcessedFailed
  | SetConstraintsFailed
  | ApplyDMLFailed error
  | RecordProcessedFailed
  | CommitTxFailed
  | PollFailed
  | ParseFailed
  | ApplyEventFailed error
  | CommitMessageFailed

fun buildInsertSQL :: "doc \<Rightarrow> string list \<times> gvalue list" where
  "buildInsertSQL [] = ([], [])"
| "buildInsertSQL ((key, val) # data) =
     (case buildInsertSQL data of (columns, vals) \<Rightarrow> (key # columns, val # vals))"

fun buildUpdateSQL :: "doc \<Rightarrow> string list \<times> gvalue list" where
  "buildUpdateSQL [] = ([], [])"
| "buildUpdateSQL ((key, val) # data) =
     (if key = ''id'' then buildUpdateSQL data
      else (case buildUpdateSQL data of
              (setClauses, vals) \<Rightarrow> ((key @ '' = ?'') # setClauses, val # vals)))"

definition makePlaceholders :: "nat \<Rightarrow> string list" where
  "makePlaceholders count = replicate count ''?''"

definition resolveConflict ::
  "Config \<Rightarrow> tx \<Rightarrow> string \<Rightarrow> gvalue \<Rightarrow> int64 \<Rightarrow> int64 \<Rightarrow> doc \<Rightarrow> error option \<times> tx" where
  "resolveConflict cfg t tableName primaryKey existingVersion incomingVersion data =
     (if ConflictResolution cfg = ''last_write_wins'' then
        (if existingVersion <s incomingVersion then
           (case buildUpdateSQL data of
              (setClauses, vals) \<Rightarrow>
                (case Exec (UpdateSet tableName setClauses (vals @ [primaryKey])) t of
                   (True, t') \<Rightarrow> (None, t')
                 | (False, t') \<Rightarrow> (Some ExecFailed, t')))
         else (None, t))
      else if ConflictResolution cfg = ''skip'' then (None, t)
      else if ConflictResolution cfg = ''error'' then (Some ConflictPolicyError, t)
      else (Some (UnknownStrategy (ConflictResolution cfg)), t))"

definition handleVersionConflict ::
  "Config \<Rightarrow> string \<Rightarrow> gvalue \<Rightarrow> int64 \<Rightarrow> int64 \<Rightarrow> error option" where
  "handleVersionConflict cfg tableName primaryKey existingVersion incomingVersion =
     (if ConflictResolution cfg = ''last_write_wins'' then None
      else if ConflictResolution cfg = ''skip'' then None
      else if ConflictResolution cfg = ''error''
        then Some (VersionConflictError existingVersion incomingVersion)
      else Some (UnknownStrategy (ConflictResolution cfg)))"

definition applyInsert :: "Config \<Rightarrow> tx \<Rightarrow> ReplicationEvent \<Rightarrow> error option \<times> tx" where
  "applyInsert cfg t event =
     (case After event of
        None \<Rightarrow> (Some (MissingAfter ''INSERT''), t)
      | Some data \<Rightarrow>
          (case probe_version t (Table event) (GetPrimaryKeyValue event) of
             (ProbeError, t1) \<Rightarrow> (Some CheckExistingFailed, t1)
           | (Found existingVersion, t1) \<Rightarrow>
               resolveConflict cfg t1 (Table event) (GetPrimaryKeyValue event)
                 existingVersion (GetVersion event) data
           | (ErrRecordNotFound, t1) \<Rightarrow>
               (case buildInsertSQL data of
                  (columns, vals) \<Rightarrow>
                    (case Exec (InsertInto (Table event) columns
                                  (makePlaceholders (length vals)) vals) t1 of
                       (True, t2) \<Rightarrow> (None, t2)
                     | (False, t2) \<Rightarrow> (Some InsertFailed, t2)))))"

definition applyUpdate :: "Config \<Rightarrow> tx \<Rightarrow> ReplicationEvent \<Rightarrow> error option \<times> tx" where
  "applyUpdate cfg t event =
     (case After event of
        None \<Rightarrow> (Some (MissingAfter ''UPDATE''), t)
      | Some data \<Rightarrow>
          (case probe_version t (Table event) (GetPrimaryKeyValue event) of
             (ErrRecordNotFound, t1) \<Rightarrow> applyInsert cfg t1 event
           | (ProbeError, t1) \<Rightarrow> (Some CheckExistingFailed, t1)
           | (Found existingVersion, t1) \<Rightarrow>
               if GetVersion event \<le>s existingVersion
               then (handleVersionConflict cfg (Table event) (GetPrimaryKeyValue event)
                       existingVersion (GetVersion event), t1)
               else
                 (case buildUpdateSQL data of
                    (setClauses, vals) \<Rightarrow>
                      (case Exec (UpdateSet (Table event) setClauses
                                    (vals @ [GetPrimaryKeyValue event])) t1 of
                         (True, t2) \<Rightarrow> (None, t2)
                       | (False, t2) \<Rightarrow> (Some UpdateFailed, t2)))))"

definition applyDelete :: "Config \<Rightarrow> tx \<Rightarrow> ReplicationEvent \<Rightarrow> error option \<times> tx" where
  "applyDelete cfg t event =
     (case probe_version t (Table event) (GetPrimaryKeyValue event) of
        (ErrRecordNotFound, t1) \<Rightarrow> (None, t1)
      | (ProbeError, t1) \<Rightarrow> (Some CheckExistingFailed, t1)
      | (Found existingVersion, t1) \<Rightarrow>
          (case Exec (DeleteFrom (Table event) (GetPrimaryKeyValue event)) t1 of
             (True, t2) \<Rightarrow> (None, t2)
           | (False, t2) \<Rightarrow> (Some DeleteFailed, t2)))"

definition Apply :: "Config \<Rightarrow> tx \<Rightarrow> ReplicationEvent \<Rightarrow> error option \<times> tx" where
  "Apply cfg t event =
     (if Operation event = ''INSERT'' then applyInsert cfg t event
      else if Operation event = ''UPDATE'' then applyUpdate cfg t event
      else if Operation event = ''DELETE'' then applyDelete cfg t event
      else (Some (UnknownOperation (Operation event)), t))"

section \<open>The consumer\<close>

text \<open>
  The bus client. \<open>inbox\<close> lists what the coming polls deliver (an empty inbox: the
  poll times out), \<open>committed\<close> the offset committed for each topic and partition
  (the offset of the next message to deliver to the group), \<open>commit_faults\<close>
  the outcome of the coming acknowledgements (\<open>True\<close>: the call fails).
\<close>

record Message =
  msg_Topic :: string
  msg_Partition :: int
  msg_Offset :: int
  msg_Key :: string
  msg_Value :: string

datatype poll_event = PolledMessage Message | PolledKafkaError | PolledOther

record KafkaConsumer =
  inbox :: "poll_event list"
  committed :: "((string \<times> int) \<times> int) list"
  commit_faults :: "bool list"

text \<open>\<^verbatim>\<open>Poll\<close> returns the message, if any, and whether it returns an error.\<close>

definition Poll :: "KafkaConsumer \<Rightarrow> (Message option \<times> bool) \<times> KafkaConsumer" where
  "Poll k =
     (case inbox k of
        [] \<Rightarrow> ((None, False), k)
      | PolledMessage m # evs \<Rightarrow> ((Some m, False), k\<lparr>inbox := evs\<rparr>)
      | PolledKafkaError # evs \<Rightarrow> ((None, True), k\<lparr>inbox := evs\<rparr>)
      | PolledOther # evs \<Rightarrow> ((None, False), k\<lparr>inbox := evs\<rparr>))"

text \<open>
  \<^verbatim>\<open>CommitMessage\<close> commits, for the topic and partition of the message, the offset
  after that of the message; a committed offset covers every message below it.
\<close>

definition commit_offset :: "Message \<Rightarrow> KafkaConsumer \<Rightarrow> KafkaConsumer" where
  "commit_offset message k =
     k\<lparr>committed :=
         AList.update (msg_Topic message, msg_Partition message) (msg_Offset message + 1)
           (committed k)\<rparr>"

definition acknowledged :: "KafkaConsumer \<Rightarrow> Message \<Rightarrow> bool" where
  "acknowledged k message =
     (case map_of (committed k) (msg_Topic message, msg_Partition message) of
        None \<Rightarrow> False
      | Some next_offset \<Rightarrow> msg_Offset message < next_offset)"

text \<open>\<^verbatim>\<open>Commit\<close> returns whether the acknowledgement went through.\<close>

definition Commit :: "Message \<Rightarrow> KafkaConsumer \<Rightarrow> bool \<times> KafkaConsumer" where
  "Commit message k =
     (case commit_faults k of
        [] \<Rightarrow> (True, commit_offset message k)
      | f # fs \<Rightarrow>
          if f then (False, k\<lparr>commit_faults := fs\<rparr>)
          else (True, commit_offset message (k\<lparr>commit_faults := fs\<rparr>)))"

text \<open>
  The \<^verbatim>\<open>Consumer\<close>. \<open>db\<close> is the database handle, whose \<open>store\<close> is the committed
  data; \<open>errorLog\<close> collects the messages the consumer logs at error level. The
  applier shares the handle and the configuration.
\<close>

record Consumer =
  db :: tx
  consumer :: KafkaConsumer
  config :: Config
  errorLog :: "string list"
  processedCount :: int64
  skippedCount :: int64
  failedCount :: int64

definition shouldProcess :: "Config \<Rightarrow> ReplicationEvent \<Rightarrow> bool" where
  "shouldProcess cfg event = (if Contour (Source event) = MyContour cfg then False else True)"

text \<open>
  \<^verbatim>\<open>tx.Rollback()\<close> drops what the transaction did to the data; its own result is
  never looked at.
\<close>

definition rollback :: "tx \<Rightarrow> tx \<Rightarrow> tx" where
  "rollback t0 t = t\<lparr>store := store t0, trace := trace t @ [RollbackTx]\<rparr>"

text \<open>\<^verbatim>\<open>tx.Where("event_id = ?", id).First(&existingEvent)\<close> finds a ledger row.\<close>

definition processed :: "database \<Rightarrow> string \<Rightarrow> bool" where
  "processed d eid = (filter (\<lambda>p. pe_EventID p = eid) (processed_events d) \<noteq> [])"

text \<open>\<open>now\<close> is the clock reading \<^verbatim>\<open>time.Now()\<close> gives inside the call.\<close>

definition applyEvent :: "nat \<Rightarrow> Consumer \<Rightarrow> ReplicationEvent \<Rightarrow> error option \<times> Consumer" where
  "applyEvent now c event =
     (case send BeginTx (db c) of
        (False, t0) \<Rightarrow> (Some BeginFailed, c\<lparr>db := t0\<rparr>)
      | (True, t0) \<Rightarrow>
          (case send (SelectProcessedEvent (EventID event)) t0 of
             (False, t1) \<Rightarrow> (Some CheckProcessedFailed, c\<lparr>db := rollback t0 t1\<rparr>)
           | (True, t1) \<Rightarrow>
               if processed (store t1) (EventID event)
               then (None, c\<lparr>db := rollback t0 t1\<rparr>)
               else
                 (case Exec SetConstraintsAllDeferred t1 of
                    (False, t2) \<Rightarrow> (Some SetConstraintsFailed, c\<lparr>db := rollback t0 t2\<rparr>)
                  | (True, t2) \<Rightarrow>
                      (case Apply (config c) t2 event of
                         (Some err, t3) \<Rightarrow> (Some (ApplyDMLFailed err), c\<lparr>db := rollback t0 t3\<rparr>)
                       | (None, t3) \<Rightarrow>
                           (case Exec (CreateProcessedEvent
                                         \<lparr>pe_EventID = EventID event, pe_ProcessedAt = now\<rparr>) t3 of
                              (False, t4) \<Rightarrow>
                                (Some RecordProcessedFailed, c\<lparr>db := rollback t0 t4\<rparr>)
                            | (True, t4) \<Rightarrow>
                                (case send CommitTx t4 of
                                   (False, t5) \<Rightarrow>
                                     (Some CommitTxFailed, c\<lparr>db := t5\<lparr>store := store t0\<rparr>\<rparr>)
                                 | (True, t5) \<Rightarrow> (None, c\<lparr>db := t5\<rparr>)))))))"

text \<open>
  \<open>unmarshal\<close> stands for \<^verbatim>\<open>json.Unmarshal\<close> into a \<^verbatim>\<open>ReplicationEvent\<close>: \<open>None\<close> when
  the payload does not parse.
\<close>

definition processMessage ::
  "(string \<Rightarrow> ReplicationEvent option) \<Rightarrow> nat \<Rightarrow> Consumer \<Rightarrow> error option \<times> Consumer" where
  "processMessage unmarshal now c =
     (case Poll (consumer c) of
        ((m, True), k) \<Rightarrow> (Some PollFailed, c\<lparr>consumer := k\<rparr>)
      | ((None, False), k) \<Rightarrow> (None, c\<lparr>consumer := k\<rparr>)
      | ((Some message, False), k) \<Rightarrow>
          (case unmarshal (msg_Value message) of
             None \<Rightarrow>
               (Some ParseFailed,
                c\<lparr>consumer := snd (Commit message k),
                  errorLog := errorLog c @ [''Failed to parse event'']\<rparr>)
           | Some event \<Rightarrow>
               if \<not> shouldProcess (config c) event then
                 (case Commit message k of
                    (ok, k') \<Rightarrow>
                      (if ok then None else Some CommitMessageFailed,
                       c\<lparr>consumer := k', skippedCount := skippedCount c + 1\<rparr>))
               else
                 (case applyEvent now (c\<lparr>consumer := k\<rparr>) event of
                    (Some err, c1) \<Rightarrow>
                      (Some (ApplyEventFailed err),
                       c1\<lparr>errorLog := errorLog c1 @ [''Failed to apply event'']\<rparr>)
                  | (None, c1) \<Rightarrow>
                      (case Commit message (consumer c1) of
                         (False, k') \<Rightarrow>
                           (Some CommitMessageFailed,
                            c1\<lparr>consumer := k',
                               errorLog := errorLog c1 @ [''Failed to commit message'']\<rparr>)
                       | (True, k') \<Rightarrow>
                           (None, c1\<lparr>consumer := k',
                                     processedCount := processedCount c1 + 1\<rparr>)))))"

text \<open>
  One turn of the loop of \<^verbatim>\<open>Start\<close> while the context is live, and the loop itself
  over the clock readings of its turns: the context is cancelled when they run out.
\<close>

definition Start_turn ::
  "(string \<Rightarrow> ReplicationEvent option) \<Rightarrow> nat \<Rightarrow> Consumer \<Rightarrow> Consumer" where
  "Start_turn unmarshal now c =
     (case processMessage unmarshal now c of
        (Some err, c') \<Rightarrow>
          c'\<lparr>errorLog := errorLog c' @ [''Failed to process message''],
             failedCount := failedCount c' + 1\<rparr>
      | (None, c') \<Rightarrow> c')"

fun Start :: "(string \<Rightarrow> ReplicationEvent option) \<Rightarrow> nat list \<Rightarrow> Consumer \<Rightarrow> Consumer" where
  "Start unmarshal [] c = c"
| "Start unmarshal (now # ticks) c = Start unmarshal ticks (Start_turn unmarshal now c)"

section \<open>Capture: the after-trigger\<close>

text \<open>
  The two session settings the sources mention. A row is written to
  \<^verbatim>\<open>replication_queue\<close> by naming three columns; \<^verbatim>\<open>row_to_json(r)::JSONB\<close> of a row
  is the document of its columns and \<^verbatim>\<open>jsonb_build_object\<close> a document of the two
  named parts.
\<close>

record session =
  application_name :: string
  session_replication_role :: string

record queue_insert =
  qi_table_name :: string
  qi_operation :: string
  qi_record_data :: gvalue

text \<open>
  \<^verbatim>\<open>generic_replication_trigger\<close>: what it inserts into the queue, given the session,
  \<^verbatim>\<open>TG_OP\<close>, \<^verbatim>\<open>TG_TABLE_NAME\<close>, \<^verbatim>\<open>OLD\<close> and \<^verbatim>\<open>NEW\<close>. The test on \<^verbatim>\<open>application_name\<close>
  is commented out in the function and so takes no part.
\<close>

definition generic_replication_trigger ::
  "session \<Rightarrow> string \<Rightarrow> string \<Rightarrow> doc \<Rightarrow> doc \<Rightarrow> queue_insert list" where
  "generic_replication_trigger s TG_OP TG_TABLE_NAME OLD NEW =
     (if session_replication_role s = ''replica'' then []
      else if TG_OP = ''INSERT'' then
        [\<lparr>qi_table_name = TG_TABLE_NAME, qi_operation = ''INSERT'',
          qi_record_data = VMap NEW\<rparr>]
      else if TG_OP = ''UPDATE'' then
        [\<lparr>qi_table_name = TG_TABLE_NAME, qi_operation = ''UPDATE'',
          qi_record_data = VMap [(''before'', VMap OLD), (''after'', VMap NEW)]\<rparr>]
      else if TG_OP = ''DELETE'' then
        [\<lparr>qi_table_name = TG_TABLE_NAME, qi_operation = ''DELETE'',
          qi_record_data = VMap OLD\<rparr>]
      else [])"

section \<open>Opening the database connection\<close>

text \<open>
  \<^verbatim>\<open>database.Config\<close> (its \<^verbatim>\<open>Database\<close> spelled \<open>db_Database\<close>) and the connection
  string \<^verbatim>\<open>Connect\<close> builds from it, as the list of its \<^verbatim>\<open>key=value\<close> settings.
\<close>

record DatabaseConfig =
  Host :: string
  Port :: int
  db_Database :: string
  User :: string
  Password :: string
  SSLMode :: string
  MaxOpenConns :: int
  MaxIdleConns :: int
  ConnMaxLifetime :: nat
  LogQueries :: bool
  ApplicationName :: string

datatype dsn_value = DsnString string | DsnInt int

definition Connect_dsn :: "DatabaseConfig \<Rightarrow> (string \<times> dsn_value) list" where
  "Connect_dsn cfg =
     [(''host'', DsnString (Host cfg)), (''port'', DsnInt (Port cfg)),
      (''dbname'', DsnString (db_Database cfg)), (''user'', DsnString (User cfg)),
      (''password'', DsnString (Password cfg)), (''sslmode'', DsnString (SSLMode cfg))]
     @ (if ApplicationName cfg \<noteq> [] then
          [(''application_name'', DsnString (ApplicationName cfg))]
        else [])"

text \<open>
  The session the server opens for a connection string: \<^verbatim>\<open>application_name\<close> as the
  string gives it, \<^verbatim>\<open>session_replication_role\<close> at the server's default \<^verbatim>\<open>origin\<close>,
  which the string does not touch.
\<close>

definition open_session :: "(string \<times> dsn_value) list \<Rightarrow> session" where
  "open_session dsn =
     \<lparr>application_name =
        (case map_of dsn ''application_name'' of Some (DsnString a) \<Rightarrow> a | _ \<Rightarrow> []),
      session_replication_role = ''origin''\<rparr>"

text \<open>\<^verbatim>\<open>Connect\<close>: \<open>None\<close> when opening or pinging fails, else the session it holds.\<close>

definition Connect :: "DatabaseConfig \<Rightarrow> bool \<Rightarrow> session option" where
  "Connect cfg reachable = (if reachable then Some (open_session (Connect_dsn cfg)) else None)"

section \<open>The publisher\<close>

text \<open>
  A queue row as the publisher reads it (\<^verbatim>\<open>database.ReplicationQueue\<close>; \<^verbatim>\<open>ID\<close>,
  \<^verbatim>\<open>Table\<close> and \<^verbatim>\<open>Operation\<close> spelled with the prefix \<open>rq_\<close>). \<open>RecordData\<close> is the
  \<^verbatim>\<open>JSONB\<close> map, nil when the column holds no object.
\<close>

record ReplicationQueue =
  rq_ID :: int64
  rq_Table :: string
  rq_Operation :: string
  RecordData :: "doc option"
  PrimaryKeyValue :: string
  CreatedAt :: nat
  Published :: bool
  PublishedAt :: "nat option"

text \<open>
  The row a queue insert of the trigger becomes: the trigger names three columns, the
  others take their defaults, and the table of \<^verbatim>\<open>01_create_tables.sql\<close> has no column
  \<^verbatim>\<open>primary_key_value\<close>, so that field of the struct stays empty.
\<close>

definition queued :: "int64 \<Rightarrow> nat \<Rightarrow> queue_insert \<Rightarrow> ReplicationQueue" where
  "queued serial now q =
     \<lparr>rq_ID = serial, rq_Table = qi_table_name q, rq_Operation = qi_operation q,
      RecordData = (case qi_record_data q of VMap d \<Rightarrow> Some d | _ \<Rightarrow> None),
      PrimaryKeyValue = [], CreatedAt = now, Published = False, PublishedAt = None\<rparr>"

text \<open>\<open>uuid\<close> is the fresh \<^verbatim>\<open>uuid.New().String()\<close>, \<open>now\<close> the clock reading.\<close>

definition NewReplicationEvent ::
  "string \<Rightarrow> nat \<Rightarrow> string \<Rightarrow> string \<Rightarrow> string \<Rightarrow> string \<Rightarrow> doc option \<Rightarrow> ReplicationEvent" where
  "NewReplicationEvent uuid now contour database tableName operation recordData =
     (let event =
            \<lparr>EventID = uuid, Timestamp = now,
             Source = \<lparr>Contour = contour, Database = database\<rparr>,
             Table = tableName, Operation = operation,
             PrimaryKey =
               (case lookup recordData ''id'' of
                  Some k \<Rightarrow> Some [(''id'', k)]
                | None \<Rightarrow> Some []),
             Before = Some [], After = Some []\<rparr>
      in if operation = ''INSERT'' then event\<lparr>After := recordData, Before := None\<rparr>
         else if operation = ''UPDATE'' then event\<lparr>After := recordData, Before := None\<rparr>
         else if operation = ''DELETE'' then event\<lparr>Before := recordData, After := None\<rparr>
         else event)"

text \<open>\<open>sprint\<close> stands for \<^verbatim>\<open>fmt.Sprintf("%v", id)\<close>.\<close>

definition ExtractPartitionKey :: "(gvalue \<Rightarrow> string) \<Rightarrow> ReplicationEvent \<Rightarrow> string" where
  "ExtractPartitionKey sprint e =
     (case lookup (PrimaryKey e) ''id'' of
        Some k \<Rightarrow> sprint k
      | None \<Rightarrow> EventID e)"

text \<open>
  The publisher's \<^verbatim>\<open>Config\<close> and the bus producer: the messages produced so far, each
  with topic, key and value, and the outcome of the coming deliveries.
\<close>

record PublisherConfig =
  pub_Contour :: string
  pub_Database :: string
  PollInterval :: nat
  pub_BatchSize :: int

record Producer =
  produced :: "(string \<times> string \<times> string) list"
  produce_faults :: "bool list"

definition Produce :: "string \<Rightarrow> string \<Rightarrow> string \<Rightarrow> Producer \<Rightarrow> bool \<times> Producer" where
  "Produce topic key val p =
     (case produce_faults p of
        [] \<Rightarrow> (True, p\<lparr>produced := produced p @ [(topic, key, val)]\<rparr>)
      | f # fs \<Rightarrow>
          if f then (False, p\<lparr>produce_faults := fs\<rparr>)
          else (True, p\<lparr>produce_faults := fs, produced := produced p @ [(topic, key, val)]\<rparr>))"

text \<open>The key \<^verbatim>\<open>publishRecord\<close> gives the message of a queue row.\<close>

definition partitionKey ::
  "(gvalue \<Rightarrow> string) \<Rightarrow> ReplicationQueue \<Rightarrow> ReplicationEvent \<Rightarrow> string" where
  "partitionKey sprint record event =
     (if PrimaryKeyValue record = [] then ExtractPartitionKey sprint event
      else PrimaryKeyValue record)"

datatype publish_error = SerializeFailed | ProduceFailed

text \<open>\<open>toJSON\<close> stands for \<^verbatim>\<open>json.Marshal\<close> of the event: \<open>None\<close> when it fails.\<close>

definition publishRecord ::
  "(gvalue \<Rightarrow> string) \<Rightarrow> (ReplicationEvent \<Rightarrow> string option) \<Rightarrow> string \<Rightarrow> nat \<Rightarrow>
   PublisherConfig \<Rightarrow> Producer \<Rightarrow> ReplicationQueue \<Rightarrow> publish_error option \<times> Producer" where
  "publishRecord sprint toJSON uuid now cfg p record =
     (let event = NewReplicationEvent uuid now (pub_Contour cfg) (pub_Database cfg)
                    (rq_Table record) (rq_Operation record) (RecordData record)
      in case toJSON event of
           None \<Rightarrow> (Some SerializeFailed, p)
         | Some eventJSON \<Rightarrow>
             (case Produce (rq_Table record @ ''_changes'')
                     (partitionKey sprint record event) eventJSON p of
                (False, p') \<Rightarrow> (Some ProduceFailed, p')
              | (True, p') \<Rightarrow> (None, p')))"

section \<open>Reading states\<close>

text \<open>The rows of a table (none for an unknown table) and its key column.\<close>

definition rows_of :: "database \<Rightarrow> string \<Rightarrow> doc list" where
  "rows_of d t = (case map_of (tables d) t of None \<Rightarrow> [] | Some rows \<Rightarrow> rows)"

definition key_column :: "database \<Rightarrow> string \<Rightarrow> gvalue option list" where
  "key_column d t = map (\<lambda>r. map_of r ''id'') (rows_of d t)"

text \<open>The statements sent on a handle between an earlier and a later state.\<close>

definition issued :: "tx \<Rightarrow> tx \<Rightarrow> stmt list" where
  "issued t t' = drop (length (trace t)) (trace t')"

text \<open>The columns and values a SET list built from a document carries.\<close>

definition set_part :: "doc \<Rightarrow> doc" where
  "set_part data = filter (\<lambda>kv. fst kv \<noteq> ''id'') data"

text \<open>An \<^verbatim>\<open>UPDATE\<close> whose SET list does not name the key column.\<close>

fun update_spares_id :: "stmt \<Rightarrow> bool" where
  "update_spares_id (UpdateSet t clauses args) =
     (''id = ?'' \<notin> set clauses \<and> ''id'' \<notin> set (map clause_column clauses))"
| "update_spares_id q = True"

text \<open>
  An event whose selected payload is missing, has no \<^verbatim>\<open>version\<close> field, or has one
  of a dynamic type the type switch of \<^verbatim>\<open>GetVersion\<close> does not list.
\<close>

definition lacks_numeric_version :: "ReplicationEvent \<Rightarrow> bool" where
  "lacks_numeric_version e =
     (case selected_payload e of
        None \<Rightarrow> True
      | Some data \<Rightarrow>
          (case map_of data ''version'' of None \<Rightarrow> True | Some v \<Rightarrow> \<not> numeric v))"

text \<open>
  The rows of a table once every row of key \<open>pk\<close> has taken each column of the
  document \<open>data\<close> but \<^verbatim>\<open>id\<close> and the version trigger has stamped it: \<^verbatim>\<open>version\<close> one
  above the stored one, \<^verbatim>\<open>updated_at\<close> at \<open>now\<close>.
\<close>

definition overwrite :: "gvalue \<Rightarrow> gvalue \<Rightarrow> doc \<Rightarrow> doc list \<Rightarrow> doc list" where
  "overwrite now pk data rows =
     map (\<lambda>r. if matches pk r
               then AList.update ''updated_at'' now
                      (AList.update ''version'' (bumped r) (assign (set_part data) r))
               else r) rows"

text \<open>The statements that are an \<^verbatim>\<open>INSERT\<close> into a business table.\<close>

fun is_insert :: "stmt \<Rightarrow> bool" where
  "is_insert (InsertInto t cs ps vs) = True"
| "is_insert q = False"

section \<open>Example data\<close>

text \<open>
  A consumer on contour \<open>B\<close> with the default policy, a \<^verbatim>\<open>users\<close> table holding the
  row of key 1 at version 1, and events of contour \<open>A\<close> for that table.
\<close>

definition example_config :: Config where
  "example_config =
     \<lparr>MyContour = ''B'', cfg_Database = ''app'', BatchSize = 100, EventTimeout = 30,
      ConflictResolution = ''last_write_wins''\<rparr>"

definition example_row :: doc where
  "example_row = [(''id'', VFloat64 1), (''name'', VString ''John''), (''version'', VFloat64 1)]"

definition example_now :: gvalue where
  "example_now = VString ''2025-01-01 00:00:00+00''"

definition example_tx :: tx where
  "example_tx =
     \<lparr>store = \<lparr>tables = [(''users'', [example_row])], processed_events = [],
               now_value = example_now\<rparr>,
      faults = [], trace = []\<rparr>"

text \<open>The row of key 1 once the update to Bob at version 2 has been applied to it.\<close>

definition example_row_bob :: doc where
  "example_row_bob =
     [(''id'', VFloat64 1), (''name'', VString ''Bob''), (''version'', VInt64 2),
      (''updated_at'', example_now)]"

definition example_event :: "string \<Rightarrow> string \<Rightarrow> doc option \<Rightarrow> doc option \<Rightarrow> ReplicationEvent" where
  "example_event eid operation pre post =
     \<lparr>EventID = eid, Timestamp = 0, Source = \<lparr>Contour = ''A'', Database = ''app''\<rparr>,
      Table = ''users'', Operation = operation,
      PrimaryKey = Some [(''id'', VFloat64 1)], Before = pre, After = post\<rparr>"

definition example_update :: ReplicationEvent where
  "example_update =
     example_event ''e-2'' ''UPDATE'' None
       (Some [(''id'', VFloat64 1), (''name'', VString ''Bob''), (''version'', VFloat64 2)])"

definition example_unversioned :: ReplicationEvent where
  "example_unversioned =
     example_event ''e-3'' ''UPDATE'' None
       (Some [(''id'', VFloat64 1), (''name'', VString ''Eve''), (''version'', VString ''7'')])"

definition example_stale :: ReplicationEvent where
  "example_stale =
     example_event ''e-4'' ''UPDATE'' None
       (Some [(''id'', VFloat64 1), (''name'', VString ''Old''), (''version'', VFloat64 1)])"

text \<open>Events for the key 7, which the table does not hold.\<close>

definition example_new_row :: doc where
  "example_new_row = [(''id'', VFloat64 7), (''name'', VString ''X''), (''version'', VFloat64 5)]"

definition example_insert_7 :: ReplicationEvent where
  "example_insert_7 =
     (example_event ''e-5'' ''INSERT'' None (Some example_new_row))
       \<lparr>PrimaryKey := Some [(''id'', VFloat64 7)]\<rparr>"

definition example_update_7 :: ReplicationEvent where
  "example_update_7 =
     (example_event ''e-6'' ''UPDATE'' None (Some example_new_row))
       \<lparr>PrimaryKey := Some [(''id'', VFloat64 7)]\<rparr>"

definition example_insert_1 :: ReplicationEvent where
  "example_insert_1 = example_event ''e-1'' ''INSERT'' None (Some example_row)"

text \<open>
  A message that carries the update of row 1, one that carries an event of an
  operation the applier does not know, a decoder for the two payloads, and a
  consumer that is about to poll the first and one that is about to poll the second.
\<close>

definition example_merge :: ReplicationEvent where
  "example_merge = example_event ''e-7'' ''MERGE'' None (Some example_row)"

definition example_message :: Message where
  "example_message =
     \<lparr>msg_Topic = ''users_changes'', msg_Partition = 0, msg_Offset = 42, msg_Key = ''1'',
      msg_Value = ''update of row 1''\<rparr>"

definition example_poison :: Message where
  "example_poison =
     \<lparr>msg_Topic = ''users_changes'', msg_Partition = 0, msg_Offset = 43, msg_Key = ''1'',
      msg_Value = ''merge of row 1''\<rparr>"

definition example_unmarshal :: "string \<Rightarrow> ReplicationEvent option" where
  "example_unmarshal v =
     (if v = ''update of row 1'' then Some example_update
      else if v = ''merge of row 1'' then Some example_merge
      else None)"

definition example_consumer :: Consumer where
  "example_consumer =
     \<lparr>db = example_tx,
      consumer = \<lparr>inbox = [PolledMessage example_message], committed = [], commit_faults = []\<rparr>,
      config = example_config, errorLog = [],
      processedCount = 0, skippedCount = 0, failedCount = 0\<rparr>"

definition example_poisoned :: Consumer where
  "example_poisoned =
     example_consumer
       \<lparr>consumer := \<lparr>inbox = [PolledMessage example_poison], committed = [],
                      commit_faults = []\<rparr>\<rparr>"

text \<open>The first consumer once it has applied the update of row 1 at clock reading 5.\<close>

definition example_applied :: Consumer where
  "example_applied =
     example_consumer\<lparr>db :=
       \<lparr>store =
          \<lparr>tables = [(''users'', [example_row_bob])],
           processed_events = [\<lparr>pe_EventID = ''e-2'', pe_ProcessedAt = 5\<rparr>],
           now_value = example_now\<rparr>,
        faults = [],
        trace =
          [BeginTx, SelectProcessedEvent ''e-2'', SetConstraintsAllDeferred,
           SelectVersion ''users'' (VFloat64 1),
           UpdateSet ''users'' [''name = ?'', ''version = ?'']
             [VString ''Bob'', VFloat64 2, VFloat64 1],
           CreateProcessedEvent \<lparr>pe_EventID = ''e-2'', pe_ProcessedAt = 5\<rparr>,
           CommitTx]\<rparr>\<rparr>"

text \<open>
  A later message of the same partition, and a table whose row of key 1 is stored at
  the version -1.
\<close>

definition example_next_message :: Message where
  "example_next_message =
     \<lparr>msg_Topic = ''users_changes'', msg_Partition = 0, msg_Offset = 44, msg_Key = ''1'',
      msg_Value = ''update of row 1''\<rparr>"

definition example_negative_row :: doc where
  "example_negative_row =
     [(''id'', VFloat64 1), (''name'', VString ''John''), (''version'', VInt64 (- 1))]"

definition example_negative_tx :: tx where
  "example_negative_tx =
     \<lparr>store = \<lparr>tables = [(''users'', [example_negative_row])], processed_events = [],
               now_value = example_now\<rparr>,
      faults = [], trace = []\<rparr>"

text \<open>
  The consumer's database configuration with the session identity the documents
  name, the session of an ordinary writer, the row of key 1 after a local update,
  and the queue row the after-trigger writes for that update as the publisher reads
  it.
\<close>

definition example_db_config :: DatabaseConfig where
  "example_db_config =
     \<lparr>Host = ''localhost'', Port = 5432, db_Database = ''app'', User = ''replicator'',
      Password = ''secret'', SSLMode = ''disable'', MaxOpenConns = 10, MaxIdleConns = 5,
      ConnMaxLifetime = 3600, LogQueries = False, ApplicationName = ''replicator_consumer''\<rparr>"

definition example_writer :: session where
  "example_writer = \<lparr>application_name = ''my_app'', session_replication_role = ''origin''\<rparr>"

definition example_row_v2 :: doc where
  "example_row_v2 = [(''id'', VFloat64 1), (''name'', VString ''Alice''), (''version'', VFloat64 2)]"

definition example_queued_update :: ReplicationQueue where
  "example_queued_update =
     \<lparr>rq_ID = 12, rq_Table = ''users'', rq_Operation = ''UPDATE'',
      RecordData = Some [(''before'', VMap example_row), (''after'', VMap example_row_v2)],
      PrimaryKeyValue = [], CreatedAt = 0, Published = False, PublishedAt = None\<rparr>"

definition example_publisher_config :: PublisherConfig where
  "example_publisher_config =
     \<lparr>pub_Contour = ''A'', pub_Database = ''app'', PollInterval = 1, pub_BatchSize = 100\<rparr>"

definition example_producer :: Producer where
  "example_producer = \<lparr>produced = [], produce_faults = []\<rparr>"

text \<open>Stand-ins for \<^verbatim>\<open>fmt.Sprintf("%v", id)\<close> and \<^verbatim>\<open>json.Marshal\<close> on the examples.\<close>

definition example_sprint :: "gvalue \<Rightarrow> string" where
  "example_sprint v =
     (if v = VFloat64 1 then ''1'' else if v = VFloat64 7 then ''7'' else ''?'')"

definition example_toJSON :: "ReplicationEvent \<Rightarrow> string option" where
  "example_toJSON e = Some (''event '' @ EventID e)"

section \<open>Facts about the database model\<close>

lemma send_no_fault: "faults t = [] \<Longrightarrow> send q t = (True, t\<lparr>trace := trace t @ [q]\<rparr>)"
  by (simp add: send_def)

lemma Exec_trace: "Exec q t = (ok, t') \<Longrightarrow> trace t' = trace t @ [q]"
  by (auto simp: Exec_def send_def split: list.splits option.splits bool.splits prod.splits)

lemma Exec_failed: "Exec q t = (False, t') \<Longrightarrow> store t' = store t"
  by (auto simp: Exec_def send_def split: list.splits option.splits bool.splits prod.splits if_splits)

lemma Exec_done: "Exec q t = (True, t') \<Longrightarrow> run q (store t) = Some (store t')"
  by (auto simp: Exec_def send_def split: list.splits option.splits bool.splits prod.splits if_splits)

lemma Exec_no_fault:
  "faults t = [] \<Longrightarrow>
   Exec q t = (case run q (store t) of
                 None \<Rightarrow> (False, t\<lparr>trace := trace t @ [q]\<rparr>)
               | Some d \<Rightarrow> (True, t\<lparr>trace := trace t @ [q], store := d\<rparr>))"
  by (simp add: Exec_def send_def split: option.splits)

lemma probe_version_no_fault:
  "faults t = [] \<Longrightarrow>
   probe_version t tbl pk =
     (select_version (store t) tbl pk, t\<lparr>trace := trace t @ [SelectVersion tbl pk]\<rparr>)"
  by (simp add: probe_version_def send_def)

lemma probe_version_result:
  "probe_version t tbl pk = (p, t') \<Longrightarrow>
   store t' = store t \<and> trace t' = trace t @ [SelectVersion tbl pk]
   \<and> (p = ProbeError \<or> p = select_version (store t) tbl pk)"
  by (auto simp: probe_version_def send_def split: list.splits bool.splits if_splits)

lemma buildUpdateSQL_eq:
  "buildUpdateSQL data =
     (map (\<lambda>kv. fst kv @ '' = ?'') (set_part data), map snd (set_part data))"
  by (induction data rule: buildUpdateSQL.induct) (auto simp: set_part_def)

lemma buildInsertSQL_eq: "buildInsertSQL data = (map fst data, map snd data)"
  by (induction data rule: buildInsertSQL.induct) auto

lemma clause_column_clause: "clause_column (k @ '' = ?'') = k"
  by (simp add: clause_column_def)


lemma assign_other: "k \<notin> fst ` set kvs \<Longrightarrow> map_of (assign kvs r) k = map_of r k"
  by (induction kvs r rule: assign.induct) (auto simp: update_conv')

lemma rows_of_update:
  "rows_of (d\<lparr>tables := AList.update t rows (tables d)\<rparr>) tb =
     (if tb = t then rows else rows_of d tb)"
  by (simp add: rows_of_def update_conv')

lemma those_Some: "those xs = Some ys \<longleftrightarrow> xs = map Some ys"
proof (induction xs arbitrary: ys)
  case Nil
  then show ?case by auto
next
  case (Cons x xs)
  then show ?case by (cases x) (auto split: option.splits)
qed

lemma those_map_Some:
  "those (map f xs) = Some ys \<Longrightarrow> length ys = length xs \<and> (\<forall>i < length xs. f (xs ! i) = Some (ys ! i))"
proof -
  assume "those (map f xs) = Some ys"
  then have eq: "map f xs = map Some ys" by (simp add: those_Some)
  then have len: "length ys = length xs" by (metis length_map)
  moreover have "f (xs ! i) = Some (ys ! i)" if "i < length xs" for i
  proof -
    from that have "f (xs ! i) = map f xs ! i" by simp
    also from eq that len have "\<dots> = Some (ys ! i)" by simp
    finally show ?thesis .
  qed
  ultimately show ?thesis by blast
qed


lemma increment_version_keeps:
  "increment_version_on_update now op OLD NEW = Some r \<Longrightarrow>
   k \<noteq> ''version'' \<Longrightarrow> k \<noteq> ''updated_at'' \<Longrightarrow> map_of r k = map_of NEW k"
  by (auto simp: increment_version_on_update_def coalesce_def update_conv'
      split: if_splits option.splits)


lemma exec_update_key_column:
  assumes "''id'' \<notin> set (map clause_column clauses)"
    and "exec_update d tbl clauses args = Some d'"
  shows "key_column d' tb = key_column d tb"
proof -
  let ?kvs = "zip (map clause_column clauses) (butlast args)"
  let ?f = "\<lambda>r. if matches (last args) r
                 then increment_version_on_update (now_value d) ''UPDATE'' r (assign ?kvs r)
                 else Some r"
  have "fst ` set ?kvs \<subseteq> set (map clause_column clauses)"
    by (auto dest: set_zip_leftD)
  with assms(1) have "''id'' \<notin> fst ` set ?kvs" by blast
  then have keep: "map_of (assign ?kvs r) ''id'' = map_of r ''id''" for r
    by (rule assign_other)
  from assms(2) obtain rows rows' where rows: "map_of (tables d) tbl = Some rows"
    and those: "those (map ?f rows) = Some rows'"
    and d': "d' = d\<lparr>tables := AList.update tbl rows' (tables d)\<rparr>"
    by (auto simp: exec_update_def split: option.splits if_splits)
  from those_map_Some [OF those]
  have len: "length rows' = length rows"
    and each: "\<And>i. i < length rows \<Longrightarrow> ?f (rows ! i) = Some (rows' ! i)"
    by blast+
  have "map_of (rows' ! i) ''id'' = map_of (rows ! i) ''id''" if "i < length rows" for i
    using each [OF that] keep [of "rows ! i"]
    by (auto split: if_splits dest: increment_version_keeps [where k = "''id''"])
  with len have same: "map (\<lambda>r. map_of r ''id'') rows' = map (\<lambda>r. map_of r ''id'') rows"
    by (simp add: list_eq_iff_nth_eq)
  show ?thesis
  proof (cases "tb = tbl")
    case True
    with rows d' same show ?thesis
      by (simp add: key_column_def rows_of_update) (simp add: rows_of_def)
  next
    case False
    with d' show ?thesis by (simp add: key_column_def rows_of_update)
  qed
qed

section \<open>The key column under updates\<close>

lemma Apply_issued_spare:
  "Apply cfg t event = (r, t') \<Longrightarrow> q \<in> set (issued t t') \<Longrightarrow> update_spares_id q"
  by (auto simp: Apply_def applyInsert_def applyUpdate_def applyDelete_def resolveConflict_def
        issued_def buildUpdateSQL_eq buildInsertSQL_eq set_part_def clause_column_clause o_def
      split: option.splits if_splits prod.splits probe.splits bool.splits
      dest!: probe_version_result Exec_trace)

lemma Apply_present_store:
  assumes "Apply cfg t event = (r, t')"
    and "select_version (store t) (Table event) (GetPrimaryKeyValue event) = Found ev"
    and "Operation event \<noteq> ''DELETE''"
  shows "store t' = store t \<or>
         (\<exists>data. After event = Some data \<and>
            exec_update (store t) (Table event) (fst (buildUpdateSQL data))
              (snd (buildUpdateSQL data) @ [GetPrimaryKeyValue event]) = Some (store t'))"
  using assms
  by (auto simp: Apply_def applyInsert_def applyUpdate_def resolveConflict_def
      split: option.splits if_splits prod.splits probe.splits bool.splits
      dest!: probe_version_result Exec_failed Exec_done)

text \<open>
  C10. Every \<^verbatim>\<open>UPDATE\<close> statement the applier sends while applying an event (the
  version-checked update and the overwrite of conflict resolution alike) has no
  \<^verbatim>\<open>id\<close> clause in its SET list; running any such statement leaves the key column
  of every table as it was; and so does applying any event other than a
  \<^verbatim>\<open>DELETE\<close> whose target row exists.
\<close>

theorem updates_spare_the_key:
  assumes "Apply cfg t event = (r, t')"
  shows "(\<forall>q \<in> set (issued t t'). update_spares_id q)
       \<and> (\<forall>tbl clauses args. UpdateSet tbl clauses args \<in> set (issued t t') \<longrightarrow>
            (\<forall>d d' tb. exec_update d tbl clauses args = Some d' \<longrightarrow>
                        key_column d' tb = key_column d tb))
       \<and> (\<forall>ev tb. select_version (store t) (Table event) (GetPrimaryKeyValue event) = Found ev
            \<longrightarrow> Operation event \<noteq> ''DELETE''
            \<longrightarrow> key_column (store t') tb = key_column (store t) tb)"
proof (intro conjI allI impI ballI)
  fix q assume "q \<in> set (issued t t')"
  with assms show "update_spares_id q" by (rule Apply_issued_spare)
next
  fix tbl clauses args d d' tb
  assume "UpdateSet tbl clauses args \<in> set (issued t t')"
    and ex: "exec_update d tbl clauses args = Some d'"
  with assms have "update_spares_id (UpdateSet tbl clauses args)"
    by (blast intro: Apply_issued_spare)
  then have "''id'' \<notin> set (map clause_column clauses)" by simp
  then show "key_column d' tb = key_column d tb" using ex by (rule exec_update_key_column)
next
  fix ev tb
  assume "select_version (store t) (Table event) (GetPrimaryKeyValue event) = Found ev"
    and "Operation event \<noteq> ''DELETE''"
  with assms consider "store t' = store t"
    | data where "exec_update (store t) (Table event) (fst (buildUpdateSQL data))
              (snd (buildUpdateSQL data) @ [GetPrimaryKeyValue event]) = Some (store t')"
    using Apply_present_store by blast
  then show "key_column (store t') tb = key_column (store t) tb"
  proof cases
    case 1
    then show ?thesis by simp
  next
    case 2
    have "''id'' \<notin> set (map clause_column (fst (buildUpdateSQL data)))"
      by (auto simp: buildUpdateSQL_eq clause_column_clause set_part_def)
    then show ?thesis using 2 by (rule exec_update_key_column)
  qed
qed

lemma example_update_applied:
  "Apply example_config example_tx example_update =
     (None,
      example_tx\<lparr>store :=
          \<lparr>tables = [(''users'', [example_row_bob])], processed_events = [],
           now_value = example_now\<rparr>,
        trace :=
          [SelectVersion ''users'' (VFloat64 1),
           UpdateSet ''users'' [''name = ?'', ''version = ?'']
             [VString ''Bob'', VFloat64 2, VFloat64 1]]\<rparr>)"
  by (simp add: Apply_def example_update_def example_event_def applyUpdate_def
        probe_version_no_fault example_tx_def example_row_def example_row_bob_def
        example_config_def select_version_def matches_def GetPrimaryKeyValue_def lookup_def
        GetVersion_def selected_payload_def int64_of_float64_def truncate_float64_def
        Exec_no_fault exec_update_def clause_column_def word_sle_eq
        increment_version_on_update_def version_full_def bumped_def MaxInt64_def)

theorem updates_spare_the_key_witness:
  "UpdateSet ''users'' [''name = ?'', ''version = ?''] [VString ''Bob'', VFloat64 2, VFloat64 1]
     \<in> set (issued example_tx (snd (Apply example_config example_tx example_update)))
   \<and> select_version (store example_tx) (Table example_update)
        (GetPrimaryKeyValue example_update) = Found 1
   \<and> Operation example_update \<noteq> ''DELETE''
   \<and> update_spares_id
        (UpdateSet ''users'' [''name = ?'', ''version = ?'']
           [VString ''Bob'', VFloat64 2, VFloat64 1])
   \<and> key_column (store (snd (Apply example_config example_tx example_update))) ''users''
       = key_column (store example_tx) ''users''"
proof -
  let ?q = "UpdateSet ''users'' [''name = ?'', ''version = ?'']
              [VString ''Bob'', VFloat64 2, VFloat64 1]"
  let ?t' = "snd (Apply example_config example_tx example_update)"
  have run: "Apply example_config example_tx example_update = (None, ?t')"
    by (simp add: example_update_applied)
  have sent: "?q \<in> set (issued example_tx ?t')"
    unfolding example_update_applied by (simp add: issued_def example_tx_def)
  have found: "select_version (store example_tx) (Table example_update)
                 (GetPrimaryKeyValue example_update) = Found 1"
    by (simp add: select_version_def example_tx_def example_row_def example_update_def
          example_event_def GetPrimaryKeyValue_def lookup_def matches_def int64_of_float64_def
          truncate_float64_def)
  have op: "Operation example_update \<noteq> ''DELETE''"
    by (simp add: example_update_def example_event_def)
  from updates_spare_the_key [OF run] sent found op
  have "update_spares_id ?q"
    and "key_column (store ?t') ''users'' = key_column (store example_tx) ''users''"
    by blast+
  with sent found op show ?thesis by blast
qed

section \<open>Events without a version\<close>

lemma GetVersion_lacking: "lacks_numeric_version e \<Longrightarrow> GetVersion e = 0"
  by (auto simp: lacks_numeric_version_def GetVersion_def split: option.splits gvalue.splits)

lemma Apply_stale:
  assumes "ConflictResolution cfg = ''last_write_wins''"
    and "Operation e \<noteq> ''DELETE''"
    and "select_version (store t) (Table e) (GetPrimaryKeyValue e) = Found ev"
    and "\<not> ev <s GetVersion e"
    and "Apply cfg t e = (r, t')"
  shows "store t' = store t \<and> filter is_dml (issued t t') = []"
  using assms
  by (auto simp: Apply_def applyInsert_def applyUpdate_def resolveConflict_def issued_def
      split: option.splits if_splits prod.splits probe.splits bool.splits
      dest!: probe_version_result)

text \<open>
  C9, with the condition it needs. For an event whose selected payload
  (\<^verbatim>\<open>After\<close> if present, else \<^verbatim>\<open>Before\<close>)
  is missing or has no numeric \<^verbatim>\<open>version\<close> field, \<^verbatim>\<open>GetVersion\<close> returns 0; and
  under \<^verbatim>\<open>last_write_wins\<close> applying such an \<^verbatim>\<open>INSERT\<close> or \<^verbatim>\<open>UPDATE\<close> event to a key
  whose row exists, at a version that is not negative, changes no data and sends
  no statement that writes.
\<close>

theorem version_defaults_to_zero:
  assumes "lacks_numeric_version e"
  shows "GetVersion e = 0
       \<and> (\<forall>cfg t ev r t'.
            ConflictResolution cfg = ''last_write_wins'' \<longrightarrow>
            Operation e \<noteq> ''DELETE'' \<longrightarrow>
            select_version (store t) (Table e) (GetPrimaryKeyValue e) = Found ev \<longrightarrow>
            0 \<le>s ev \<longrightarrow>
            Apply cfg t e = (r, t') \<longrightarrow>
            store t' = store t \<and> filter is_dml (issued t t') = [])"
proof (intro conjI allI impI)
  from assms show v0: "GetVersion e = 0" by (rule GetVersion_lacking)
  fix cfg t ev r t'
  assume lww: "ConflictResolution cfg = ''last_write_wins''"
    and op: "Operation e \<noteq> ''DELETE''"
    and found: "select_version (store t) (Table e) (GetPrimaryKeyValue e) = Found ev"
    and nonneg: "0 \<le>s ev"
    and run: "Apply cfg t e = (r, t')"
  from nonneg v0 have "\<not> ev <s GetVersion e" by (simp add: signed.not_less)
  with lww op found run show "store t' = store t" "filter is_dml (issued t t') = []"
    using Apply_stale by blast+
qed

lemma example_unversioned_skipped:
  "Apply example_config example_tx example_unversioned =
     (None, example_tx\<lparr>trace := [SelectVersion ''users'' (VFloat64 1)]\<rparr>)"
  by (simp add: Apply_def example_unversioned_def example_event_def applyUpdate_def
        probe_version_no_fault example_tx_def example_row_def example_config_def
        select_version_def matches_def GetPrimaryKeyValue_def lookup_def GetVersion_def
        selected_payload_def int64_of_float64_def truncate_float64_def
        handleVersionConflict_def word_sle_eq)

theorem version_defaults_to_zero_witness:
  "lacks_numeric_version example_unversioned
   \<and> ConflictResolution example_config = ''last_write_wins''
   \<and> Operation example_unversioned \<noteq> ''DELETE''
   \<and> select_version (store example_tx) (Table example_unversioned)
        (GetPrimaryKeyValue example_unversioned) = Found 1
   \<and> 0 \<le>s (1 :: int64)
   \<and> GetVersion example_unversioned = 0
   \<and> store (snd (Apply example_config example_tx example_unversioned)) = store example_tx"
proof -
  let ?t' = "snd (Apply example_config example_tx example_unversioned)"
  have lacks: "lacks_numeric_version example_unversioned"
    by (simp add: lacks_numeric_version_def selected_payload_def example_unversioned_def
          example_event_def)
  have lww: "ConflictResolution example_config = ''last_write_wins''"
    by (simp add: example_config_def)
  have op: "Operation example_unversioned \<noteq> ''DELETE''"
    by (simp add: example_unversioned_def example_event_def)
  have found: "select_version (store example_tx) (Table example_unversioned)
                 (GetPrimaryKeyValue example_unversioned) = Found 1"
    by (simp add: select_version_def example_tx_def example_row_def example_unversioned_def
          example_event_def GetPrimaryKeyValue_def lookup_def matches_def int64_of_float64_def
          truncate_float64_def)
  have nonneg: "0 \<le>s (1 :: int64)" by (simp add: word_sle_eq)
  have run: "Apply example_config example_tx example_unversioned = (None, ?t')"
    by (simp add: example_unversioned_skipped)
  from version_defaults_to_zero [OF lacks] lww op found nonneg run
  have "GetVersion example_unversioned = 0" and "store ?t' = store example_tx"
    by blast+
  with lacks lww op found nonneg show ?thesis by blast
qed

text \<open>
  C9 as the specification states it fails where the stored version is negative: the
  event has no numeric version, \<^verbatim>\<open>GetVersion\<close> gives 0, and under
  \<^verbatim>\<open>last_write_wins\<close> its post-image overwrites the row of key 1 stored at version -1.
\<close>

theorem unversioned_event_overwrites_counterexample:
  "lacks_numeric_version example_unversioned
   \<and> GetVersion example_unversioned = 0
   \<and> ConflictResolution example_config = ''last_write_wins''
   \<and> rows_of (store example_negative_tx) ''users'' =
       [[(''id'', VFloat64 1), (''name'', VString ''John''), (''version'', VInt64 (- 1))]]
   \<and> Apply example_config example_negative_tx example_unversioned =
       (None,
        example_negative_tx\<lparr>store :=
            \<lparr>tables = [(''users'', [[(''id'', VFloat64 1), (''name'', VString ''Eve''),
                                      (''version'', VInt64 0), (''updated_at'', example_now)]])],
             processed_events = [], now_value = example_now\<rparr>,
          trace :=
            [SelectVersion ''users'' (VFloat64 1),
             UpdateSet ''users'' [''name = ?'', ''version = ?'']
               [VString ''Eve'', VString ''7'', VFloat64 1]]\<rparr>)"
  by (simp add: lacks_numeric_version_def Apply_def example_unversioned_def example_event_def
        applyUpdate_def probe_version_no_fault example_negative_tx_def example_negative_row_def
        example_config_def select_version_def matches_def GetPrimaryKeyValue_def lookup_def
        GetVersion_def selected_payload_def rows_of_def
        Exec_no_fault exec_update_def clause_column_def word_sle_eq
        increment_version_on_update_def version_full_def bumped_def MaxInt64_def)

section \<open>Last write wins\<close>

lemma assign_distinct:
  "distinct (map fst kvs) \<Longrightarrow>
   map_of (assign kvs r) k = (case map_of kvs k of Some v \<Rightarrow> Some v | None \<Rightarrow> map_of r k)"
proof (induction kvs r rule: assign.induct)
  case (1 r)
  then show ?case by simp
next
  case (2 a b kvs r)
  then have "map_of kvs a = None" by (simp add: map_of_eq_None_iff)
  with 2 show ?case by (auto simp: update_conv' split: option.splits)
qed

lemma map_of_set_part: "map_of (set_part data) k = (if k = ''id'' then None else map_of data k)"
  by (induction data) (auto simp: set_part_def)

lemma distinct_set_part: "distinct (map fst data) \<Longrightarrow> distinct (map fst (set_part data))"
  by (simp add: set_part_def distinct_map_filter)

text \<open>
  What an overwritten row holds, column by column: the trigger's stamps in
  \<^verbatim>\<open>version\<close> and \<^verbatim>\<open>updated_at\<close>, the post-image in its other columns but \<^verbatim>\<open>id\<close>,
  and the stored row elsewhere.
\<close>

lemma overwrite_columns:
  assumes "distinct (map fst data)" and "i < length rows" and "matches pk (rows ! i)"
  shows "map_of (overwrite now pk data rows ! i) k =
           (if k = ''updated_at'' then Some now
            else if k = ''version'' then Some (bumped (rows ! i))
            else if k \<noteq> ''id'' \<and> k \<in> fst ` set data then map_of data k
            else map_of (rows ! i) k)"
  using assms
  by (force simp: overwrite_def update_conv' assign_distinct distinct_set_part map_of_set_part
      map_of_eq_None_iff split: option.splits)







section \<open>Events for a row that is absent\<close>

lemma select_version_never_not_found: "select_version d tbl pk \<noteq> ErrRecordNotFound"
  by (simp add: select_version_def split: option.splits list.splits)

lemma select_version_absent:
  "map_of (tables d) tbl = Some rows \<Longrightarrow> filter (matches pk) rows = [] \<Longrightarrow>
   select_version d tbl pk = Found 0"
  by (simp add: select_version_def)

lemma probe_version_never_not_found:
  "probe_version t tbl pk = (p, t') \<Longrightarrow> p \<noteq> ErrRecordNotFound"
  by (auto simp: probe_version_def select_version_never_not_found
      split: prod.splits bool.splits)

text \<open>The applier never sends an \<^verbatim>\<open>INSERT\<close>: the branches that would are not reached.\<close>

lemma Apply_never_inserts:
  "Apply cfg t event = (r, t') \<Longrightarrow> q \<in> set (issued t t') \<Longrightarrow> \<not> is_insert q"
  by (auto simp: Apply_def applyInsert_def applyUpdate_def applyDelete_def resolveConflict_def
        issued_def select_version_never_not_found select_version_never_not_found [THEN not_sym]
      split: option.splits if_splits prod.splits probe.splits bool.splits
      dest!: probe_version_result Exec_trace)

lemma example_insert_7_facts:
  "After example_insert_7 = Some example_new_row"
  "Table example_insert_7 = ''users''"
  "GetPrimaryKeyValue example_insert_7 = VFloat64 7"
  "Operation example_insert_7 = ''INSERT''"
  by (simp_all add: example_insert_7_def example_event_def GetPrimaryKeyValue_def lookup_def)

lemma example_update_7_facts:
  "After example_update_7 = Some example_new_row"
  "Table example_update_7 = ''users''"
  "GetPrimaryKeyValue example_update_7 = VFloat64 7"
  "Operation example_update_7 = ''UPDATE''"
  by (simp_all add: example_update_7_def example_event_def GetPrimaryKeyValue_def lookup_def)

text \<open>
  C2 at a concrete input. The table holds no row of key 7. Applying the \<^verbatim>\<open>INSERT\<close>
  event of key 7 at version 5 under \<^verbatim>\<open>last_write_wins\<close>, with no failure: the probe
  returns no error and the version 0, so the applier takes the event for a conflict
  over (0, 5) and sends an \<^verbatim>\<open>UPDATE\<close> for key 7, which changes no row; it returns no
  error, sends no \<^verbatim>\<open>INSERT\<close>, and the table is as before.
\<close>

theorem insert_of_absent_row_inserts_nothing:
  "filter (matches (GetPrimaryKeyValue example_insert_7))
     (rows_of (store example_tx) (Table example_insert_7)) = []
   \<and> After example_insert_7 = Some example_new_row
   \<and> applyInsert example_config example_tx example_insert_7 =
       (None,
        example_tx\<lparr>trace :=
          [SelectVersion ''users'' (VFloat64 7),
           UpdateSet ''users'' [''name = ?'', ''version = ?'']
             [VString ''X'', VFloat64 5, VFloat64 7]]\<rparr>)
   \<and> rows_of (store (snd (applyInsert example_config example_tx example_insert_7))) ''users''
       = [example_row]"
  by (simp add: example_insert_7_def example_event_def example_new_row_def applyInsert_def
        resolveConflict_def probe_version_no_fault example_tx_def example_row_def
        example_config_def select_version_def matches_def GetPrimaryKeyValue_def lookup_def
        GetVersion_def selected_payload_def int64_of_float64_def truncate_float64_def
        rows_of_def Exec_no_fault exec_update_def clause_column_def word_sless_alt)

text \<open>
  C5 at a concrete input. The table holds no row of key 7. Applying the \<^verbatim>\<open>UPDATE\<close>
  event of key 7 at version 5, with no failure: the probe returns no error and the
  version 0, the applier sends an \<^verbatim>\<open>UPDATE\<close> for key 7, which changes no row, and
  returns no error; no row of key 7 is created.
\<close>

theorem update_of_absent_row_creates_nothing:
  "filter (matches (GetPrimaryKeyValue example_update_7))
     (rows_of (store example_tx) (Table example_update_7)) = []
   \<and> After example_update_7 = Some example_new_row
   \<and> applyUpdate example_config example_tx example_update_7 =
       (None,
        example_tx\<lparr>trace :=
          [SelectVersion ''users'' (VFloat64 7),
           UpdateSet ''users'' [''name = ?'', ''version = ?'']
             [VString ''X'', VFloat64 5, VFloat64 7]]\<rparr>)
   \<and> rows_of (store (snd (applyUpdate example_config example_tx example_update_7))) ''users''
       = [example_row]"
  by (simp add: example_update_7_def example_event_def example_new_row_def applyUpdate_def
        probe_version_no_fault example_tx_def example_row_def
        example_config_def select_version_def matches_def GetPrimaryKeyValue_def lookup_def
        GetVersion_def selected_payload_def int64_of_float64_def truncate_float64_def
        rows_of_def Exec_no_fault exec_update_def clause_column_def word_sle_eq)

section \<open>Facts about the consumer\<close>

lemma send_cases:
  "send q t = (ok, t') \<Longrightarrow>
   store t' = store t \<and> trace t' = trace t @ [q] \<and> (faults t = [] \<longrightarrow> ok \<and> faults t' = [])"
  by (auto simp: send_def split: list.splits)

lemma run_dml_ledger:
  "run q d = Some d' \<Longrightarrow> is_dml q \<Longrightarrow> processed_events d' = processed_events d"
  by (cases q)
     (auto simp: exec_insert_def exec_update_def exec_delete_def split: option.splits if_splits)

lemma Exec_dml_ledger:
  "Exec q t = (ok, t') \<Longrightarrow> is_dml q \<Longrightarrow>
   processed_events (store t') = processed_events (store t)"
  by (cases ok) (auto dest: Exec_done Exec_failed run_dml_ledger)

lemma Exec_create:
  "Exec (CreateProcessedEvent p) t = (True, t') \<Longrightarrow>
   processed_events (store t') = processed_events (store t) @ [p]
   \<and> tables (store t') = tables (store t)"
  by (auto simp: Exec_def send_def exec_create_processed_def
      split: list.splits if_splits bool.splits prod.splits)

lemma Exec_constraints:
  "Exec SetConstraintsAllDeferred t = (ok, t') \<Longrightarrow> store t' = store t"
  by (cases ok) (auto dest: Exec_done Exec_failed)

lemma resolveConflict_ledger:
  "resolveConflict cfg t tbl pk ev iv data = (r, t') \<Longrightarrow>
   processed_events (store t') = processed_events (store t)"
  by (auto simp: resolveConflict_def split: if_splits prod.splits bool.splits
      dest!: Exec_dml_ledger)

lemma probe_version_store:
  "probe_version t tbl pk = (p, t') \<Longrightarrow> store t' = store t"
  by (simp add: probe_version_result)

lemma applyInsert_ledger:
  "applyInsert cfg t event = (r, t') \<Longrightarrow>
   processed_events (store t') = processed_events (store t)"
  by (auto simp: applyInsert_def
      split: option.splits prod.splits probe.splits bool.splits
      dest!: resolveConflict_ledger probe_version_store Exec_dml_ledger)

lemma applyUpdate_ledger:
  "applyUpdate cfg t event = (r, t') \<Longrightarrow>
   processed_events (store t') = processed_events (store t)"
  by (auto simp: applyUpdate_def
      split: option.splits prod.splits probe.splits bool.splits if_splits
      dest!: applyInsert_ledger probe_version_store Exec_dml_ledger)

lemma applyDelete_ledger:
  "applyDelete cfg t event = (r, t') \<Longrightarrow>
   processed_events (store t') = processed_events (store t)"
  by (auto simp: applyDelete_def
      split: option.splits prod.splits probe.splits bool.splits if_splits
      dest!: probe_version_store Exec_dml_ledger)

lemma Apply_ledger:
  "Apply cfg t event = (r, t') \<Longrightarrow> processed_events (store t') = processed_events (store t)"
  by (auto simp: Apply_def split: if_splits
      dest: applyInsert_ledger applyUpdate_ledger applyDelete_ledger)

lemma Apply_unknown:
  "Operation event \<noteq> ''INSERT'' \<Longrightarrow> Operation event \<noteq> ''UPDATE'' \<Longrightarrow>
   Operation event \<noteq> ''DELETE'' \<Longrightarrow>
   Apply cfg t event = (Some (UnknownOperation (Operation event)), t)"
  by (simp add: Apply_def)

lemma applyEvent_frame:
  "applyEvent now c event = (r, c') \<Longrightarrow>
   consumer c' = consumer c \<and> config c' = config c \<and> errorLog c' = errorLog c
   \<and> processedCount c' = processedCount c \<and> skippedCount c' = skippedCount c
   \<and> failedCount c' = failedCount c"
  by (auto simp: applyEvent_def split: prod.splits bool.splits if_splits option.splits)

lemma applyEvent_seen:
  assumes seen: "processed (store (db c)) (EventID event)"
    and run: "applyEvent now c event = (r, c')"
  shows "store (db c') = store (db c) \<and> filter is_dml (issued (db c) (db c')) = []
         \<and> (faults (db c) = [] \<longrightarrow>
              r = None
              \<and> issued (db c) (db c') =
                  [BeginTx, SelectProcessedEvent (EventID event), RollbackTx])"
proof -
  obtain ok0 t0 where s0: "send BeginTx (db c) = (ok0, t0)" by force
  obtain ok1 t1 where s1: "send (SelectProcessedEvent (EventID event)) t0 = (ok1, t1)" by force
  note f0 = send_cases [OF s0] and f1 = send_cases [OF s1]
  show ?thesis
  proof (cases ok0)
    case False
    with run s0 f0 show ?thesis by (auto simp: applyEvent_def issued_def)
  next
    case True
    with run s0 s1 f0 f1 seen show ?thesis
      by (cases ok1) (auto simp: applyEvent_def rollback_def issued_def)
  qed
qed

lemma applyEvent_failed:
  "applyEvent now c event = (Some err, c') \<Longrightarrow> store (db c') = store (db c)"
  by (auto simp: applyEvent_def rollback_def
      split: prod.splits bool.splits if_splits option.splits
      dest!: send_cases)

lemma applyEvent_recorded:
  assumes run: "applyEvent now c event = (None, c')"
    and fresh: "\<not> processed (store (db c)) (EventID event)"
  shows "processed_events (store (db c')) =
           processed_events (store (db c)) @ [\<lparr>pe_EventID = EventID event, pe_ProcessedAt = now\<rparr>]"
  using assms
  by (auto simp: applyEvent_def rollback_def
      split: prod.splits bool.splits if_splits option.splits
      dest!: send_cases Exec_create Exec_constraints Apply_ledger)

lemma processed_count:
  "distinct (map pe_EventID ps) \<Longrightarrow> filter (\<lambda>p. pe_EventID p = eid) ps \<noteq> [] \<Longrightarrow>
   length (filter (\<lambda>p. pe_EventID p = eid) ps) = 1"
proof (induction ps)
  case Nil
  then show ?case by simp
next
  case (Cons p ps)
  show ?case
  proof (cases "pe_EventID p = eid")
    case True
    with Cons.prems have "eid \<notin> pe_EventID ` set ps" by auto
    then have "filter (\<lambda>p. pe_EventID p = eid) ps = []" by (auto simp: filter_empty_conv)
    with True show ?thesis by simp
  next
    case False
    with Cons show ?thesis by simp
  qed
qed

section \<open>A second delivery\<close>

lemma Poll_message:
  "inbox k = PolledMessage m # rest \<Longrightarrow> Poll k = ((Some m, False), k\<lparr>inbox := rest\<rparr>)"
  by (simp add: Poll_def)

lemma Commit_no_fault:
  "commit_faults k = [] \<Longrightarrow> Commit m k = (True, commit_offset m k)"
  by (simp add: Commit_def)

lemma acknowledged_commit_offset:
  "msg_Topic m2 = msg_Topic m \<Longrightarrow> msg_Partition m2 = msg_Partition m \<Longrightarrow>
   msg_Offset m \<le> msg_Offset m2 \<Longrightarrow> acknowledged (commit_offset m2 k) m"
  by (simp add: acknowledged_def commit_offset_def update_conv')

lemma processed_mono:
  "set (processed_events d) \<subseteq> set (processed_events d') \<Longrightarrow> processed d eid \<Longrightarrow>
   processed d' eid"
  by (auto simp: processed_def filter_empty_conv)

lemma applyEvent_marks:
  assumes ledger: "distinct (map pe_EventID (processed_events (store (db c))))"
    and first: "applyEvent now c event = (None, c1)"
  shows "length (filter (\<lambda>p. pe_EventID p = EventID event)
                   (processed_events (store (db c1)))) = 1"
proof (cases "processed (store (db c)) (EventID event)")
  case True
  with first have "store (db c1) = store (db c)" by (simp add: applyEvent_seen)
  with True ledger show ?thesis by (simp add: processed_count processed_def)
next
  case False
  with first have "processed_events (store (db c1)) =
      processed_events (store (db c)) @ [\<lparr>pe_EventID = EventID event, pe_ProcessedAt = now\<rparr>]"
    by (rule applyEvent_recorded)
  with False show ?thesis by (simp add: processed_def)
qed

lemma processMessage_seen:
  assumes seen: "processed (store (db c)) (EventID event)"
    and polled: "inbox (consumer c) = PolledMessage m # rest"
    and parsed: "unmarshal (msg_Value m) = Some event"
    and foreign: "Contour (Source event) \<noteq> MyContour (config c)"
    and healthy: "faults (db c) = []" "commit_faults (consumer c) = []"
    and run: "processMessage unmarshal now c = (r, c')"
  shows "r = None \<and> store (db c') = store (db c)
         \<and> issued (db c) (db c') = [BeginTx, SelectProcessedEvent (EventID event), RollbackTx]
         \<and> consumer c' = commit_offset m ((consumer c)\<lparr>inbox := rest\<rparr>)"
proof -
  let ?c0 = "c\<lparr>consumer := (consumer c)\<lparr>inbox := rest\<rparr>\<rparr>"
  obtain r1 c1 where ap: "applyEvent now ?c0 event = (r1, c1)" by force
  from seen have "processed (store (db ?c0)) (EventID event)" by simp
  from applyEvent_seen [OF this ap] healthy
  have r1: "r1 = None" and st: "store (db c1) = store (db c)"
    and tr: "issued (db c) (db c1) = [BeginTx, SelectProcessedEvent (EventID event), RollbackTx]"
    by simp_all
  from applyEvent_frame [OF ap] have k: "consumer c1 = (consumer c)\<lparr>inbox := rest\<rparr>" by simp
  with healthy have cm: "Commit m (consumer c1) = (True, commit_offset m (consumer c1))"
    by (simp add: Commit_no_fault)
  from run foreign polled parsed ap r1 cm st tr k show ?thesis
    by (auto simp: processMessage_def Poll_message shouldProcess_def)
qed

text \<open>
  C3. Once \<^verbatim>\<open>applyEvent\<close> has returned without error for an event, on a ledger whose
  event ids are distinct, the ledger holds exactly one row for that event id. From
  then on, in any state whose ledger still holds what it held, an \<^verbatim>\<open>applyEvent\<close> of
  an event of the same id leaves the data as they are and sends no statement that
  writes a business table; when the database does not fail it returns no error and
  what it sends is the begin, the ledger lookup and the rollback of the
  transaction. Processing a message that carries such an event of another contour
  does, absent failures, exactly that, returns no error, and commits the offset
  after the message, which acknowledges it.
\<close>

theorem second_delivery_is_no_op:
  assumes ledger: "distinct (map pe_EventID (processed_events (store (db c))))"
    and first: "applyEvent now c event = (None, c1)"
  shows "length (filter (\<lambda>p. pe_EventID p = EventID event)
                   (processed_events (store (db c1)))) = 1
       \<and> (\<forall>again c' now' r c2.
             EventID again = EventID event \<longrightarrow>
             set (processed_events (store (db c1))) \<subseteq> set (processed_events (store (db c'))) \<longrightarrow>
             applyEvent now' c' again = (r, c2) \<longrightarrow>
             store (db c2) = store (db c')
             \<and> filter is_dml (issued (db c') (db c2)) = []
             \<and> (faults (db c') = [] \<longrightarrow>
                  r = None
                  \<and> issued (db c') (db c2) =
                      [BeginTx, SelectProcessedEvent (EventID event), RollbackTx]))
       \<and> (\<forall>again unmarshal now' c' m rest r c2.
             EventID again = EventID event \<longrightarrow>
             set (processed_events (store (db c1))) \<subseteq> set (processed_events (store (db c'))) \<longrightarrow>
             inbox (consumer c') = PolledMessage m # rest \<longrightarrow>
             unmarshal (msg_Value m) = Some again \<longrightarrow>
             Contour (Source again) \<noteq> MyContour (config c') \<longrightarrow>
             faults (db c') = [] \<longrightarrow> commit_faults (consumer c') = [] \<longrightarrow>
             processMessage unmarshal now' c' = (r, c2) \<longrightarrow>
             r = None \<and> store (db c2) = store (db c')
             \<and> issued (db c') (db c2) =
                 [BeginTx, SelectProcessedEvent (EventID event), RollbackTx]
             \<and> consumer c2 = commit_offset m ((consumer c')\<lparr>inbox := rest\<rparr>)
             \<and> acknowledged (consumer c2) m)"
proof -
  have one: "length (filter (\<lambda>p. pe_EventID p = EventID event)
                       (processed_events (store (db c1)))) = 1"
    using ledger first by (rule applyEvent_marks)
  then have seen: "processed (store (db c1)) (EventID event)"
    by (auto simp: processed_def)
  show ?thesis
  proof (intro conjI allI impI)
    show "length (filter (\<lambda>p. pe_EventID p = EventID event)
                    (processed_events (store (db c1)))) = 1"
      by (rule one)
  next
    fix again :: ReplicationEvent and c' :: Consumer and now' r c2
    assume same_id: "EventID again = EventID event"
      and kept: "set (processed_events (store (db c1))) \<subseteq> set (processed_events (store (db c')))"
      and run: "applyEvent now' c' again = (r, c2)"
    from processed_mono [OF kept seen] same_id
    have "processed (store (db c')) (EventID again)" by simp
    from applyEvent_seen [OF this run] same_id
    show "store (db c2) = store (db c')"
      and "filter is_dml (issued (db c') (db c2)) = []"
      and "faults (db c') = [] \<Longrightarrow> r = None"
      and "faults (db c') = [] \<Longrightarrow>
             issued (db c') (db c2) = [BeginTx, SelectProcessedEvent (EventID event), RollbackTx]"
      by simp_all
  next
    fix again :: ReplicationEvent and unmarshal now' and c' :: Consumer and m rest r c2
    assume same_id: "EventID again = EventID event"
      and kept: "set (processed_events (store (db c1))) \<subseteq> set (processed_events (store (db c')))"
      and polled: "inbox (consumer c') = PolledMessage m # rest"
      and parsed: "unmarshal (msg_Value m) = Some again"
      and foreign: "Contour (Source again) \<noteq> MyContour (config c')"
      and healthy: "faults (db c') = []" "commit_faults (consumer c') = []"
      and run: "processMessage unmarshal now' c' = (r, c2)"
    from processed_mono [OF kept seen] same_id
    have "processed (store (db c')) (EventID again)" by simp
    from processMessage_seen [OF this polled parsed foreign healthy run] same_id
    show "r = None" and "store (db c2) = store (db c')"
      and "issued (db c') (db c2) = [BeginTx, SelectProcessedEvent (EventID event), RollbackTx]"
      and k: "consumer c2 = commit_offset m ((consumer c')\<lparr>inbox := rest\<rparr>)"
      by simp_all
    show "acknowledged (consumer c2) m"
      unfolding k by (rule acknowledged_commit_offset) simp_all
  qed
qed

lemma example_first_delivery:
  "applyEvent 5 example_consumer example_update = (None, example_applied)"
  by (simp add: applyEvent_def example_applied_def example_consumer_def example_tx_def
        example_row_def example_row_bob_def example_config_def example_update_def
        example_event_def send_def Exec_def processed_def Apply_def applyUpdate_def
        probe_version_def select_version_def matches_def GetPrimaryKeyValue_def lookup_def
        GetVersion_def selected_payload_def int64_of_float64_def truncate_float64_def
        exec_update_def exec_create_processed_def clause_column_def word_sle_eq
        increment_version_on_update_def version_full_def bumped_def MaxInt64_def)

theorem second_delivery_is_no_op_witness:
  "distinct (map pe_EventID (processed_events (store (db example_consumer))))
   \<and> applyEvent 5 example_consumer example_update = (None, example_applied)
   \<and> length (filter (\<lambda>p. pe_EventID p = EventID example_update)
                (processed_events (store (db example_applied)))) = 1
   \<and> inbox (consumer example_applied) = [PolledMessage example_message]
   \<and> example_unmarshal (msg_Value example_message) = Some example_update
   \<and> Contour (Source example_update) \<noteq> MyContour (config example_applied)
   \<and> faults (db example_applied) = []
   \<and> commit_faults (consumer example_applied) = []
   \<and> fst (processMessage example_unmarshal 9 example_applied) = None
   \<and> store (db (snd (processMessage example_unmarshal 9 example_applied)))
       = store (db example_applied)
   \<and> issued (db example_applied) (db (snd (processMessage example_unmarshal 9 example_applied)))
       = [BeginTx, SelectProcessedEvent ''e-2'', RollbackTx]
   \<and> committed (consumer (snd (processMessage example_unmarshal 9 example_applied)))
       = [((''users_changes'', 0), 43)]
   \<and> acknowledged (consumer (snd (processMessage example_unmarshal 9 example_applied)))
        example_message"
proof -
  let ?again = "processMessage example_unmarshal 9 example_applied"
  have ledger: "distinct (map pe_EventID (processed_events (store (db example_consumer))))"
    by (simp add: example_consumer_def example_tx_def)
  have polled: "inbox (consumer example_applied) = PolledMessage example_message # []"
    and healthy: "faults (db example_applied) = []" "commit_faults (consumer example_applied) = []"
    and start: "committed (consumer example_applied) = []"
    and foreign: "Contour (Source example_update) \<noteq> MyContour (config example_applied)"
    and eid: "EventID example_update = ''e-2''"
    by (simp_all add: example_applied_def example_consumer_def example_update_def
          example_event_def example_config_def)
  have parsed: "example_unmarshal (msg_Value example_message) = Some example_update"
    by (simp add: example_unmarshal_def example_message_def)
  have run: "?again = (fst ?again, snd ?again)" by simp
  note inst = second_delivery_is_no_op [OF ledger example_first_delivery]
  from inst have one: "length (filter (\<lambda>p. pe_EventID p = EventID example_update)
                                 (processed_events (store (db example_applied)))) = 1"
    by (rule conjunct1)
  from inst [THEN conjunct2, THEN conjunct2, rule_format,
             OF refl subset_refl polled parsed foreign healthy run]
  have "fst ?again = None"
    and "store (db (snd ?again)) = store (db example_applied)"
    and "issued (db example_applied) (db (snd ?again)) =
           [BeginTx, SelectProcessedEvent (EventID example_update), RollbackTx]"
    and "consumer (snd ?again) =
           commit_offset example_message ((consumer example_applied)\<lparr>inbox := []\<rparr>)"
    and "acknowledged (consumer (snd ?again)) example_message"
    by blast+
  with start ledger example_first_delivery one polled parsed foreign healthy eid
  show ?thesis by (simp add: commit_offset_def acknowledged_def example_message_def)
qed

section \<open>An unknown operation\<close>

lemma applyEvent_unknown:
  assumes unknown: "Operation event \<noteq> ''INSERT''" "Operation event \<noteq> ''UPDATE''"
      "Operation event \<noteq> ''DELETE''"
    and fresh: "\<not> processed (store (db c)) (EventID event)"
    and run: "applyEvent now c event = (r, c')"
  shows "r \<noteq> None
         \<and> filter is_dml (issued (db c) (db c')) = []
         \<and> (faults (db c) = [] \<longrightarrow>
              r = Some (ApplyDMLFailed (UnknownOperation (Operation event)))
              \<and> issued (db c) (db c') =
                  [BeginTx, SelectProcessedEvent (EventID event), SetConstraintsAllDeferred,
                   RollbackTx])"
proof -
  obtain ok0 t0 where s0: "send BeginTx (db c) = (ok0, t0)" by force
  obtain ok1 t1 where s1: "send (SelectProcessedEvent (EventID event)) t0 = (ok1, t1)" by force
  obtain ok2 t2 where s2: "Exec SetConstraintsAllDeferred t1 = (ok2, t2)" by force
  note f0 = send_cases [OF s0] and f1 = send_cases [OF s1]
  have f2: "faults t1 = [] \<longrightarrow> ok2"
    using s2 by (auto simp: Exec_no_fault)
  have tr2: "trace t2 = trace t1 @ [SetConstraintsAllDeferred]"
    using s2 by (rule Exec_trace)
  have ap: "Apply (config c) t2 event = (Some (UnknownOperation (Operation event)), t2)"
    using unknown by (rule Apply_unknown)
  from fresh f0 f1 have fresh1: "\<not> processed (store t1) (EventID event)" by simp
  show ?thesis
  proof (cases ok0)
    case False
    with run s0 f0 show ?thesis by (auto simp: applyEvent_def issued_def)
  next
    case ok0: True
    show ?thesis
    proof (cases ok1)
      case False
      with run s0 s1 ok0 f0 f1 show ?thesis
        by (auto simp: applyEvent_def rollback_def issued_def)
    next
      case ok1: True
      with run s0 s1 s2 ok0 f0 f1 f2 tr2 fresh1 ap show ?thesis
        by (cases ok2) (auto simp: applyEvent_def rollback_def issued_def)
    qed
  qed
qed

text \<open>
  C8, as the code has it. When the consumer polls a message that parses to an event
  of another contour whose operation is none of \<^verbatim>\<open>INSERT\<close>, \<^verbatim>\<open>UPDATE\<close>, \<^verbatim>\<open>DELETE\<close>
  and whose id is not in the ledger, processing the message fails with an apply
  error and sends no statement that writes a business table; when the database does
  not fail the error is the unknown operation and the transaction is begun and
  rolled back. The data stay as they were, the failure is logged, the turn of the
  loop counts it in \<open>failedCount\<close> and goes on to the rest of the inbox. No offset
  is committed for the message: the committed offsets are those of before the turn,
  so the message is acknowledged after the turn only if it was before; the commit of
  a later message of the same topic and partition covers it.
\<close>

theorem unknown_operation_fails_unacknowledged:
  assumes polled: "inbox (consumer c) = PolledMessage m # rest"
    and parsed: "unmarshal (msg_Value m) = Some event"
    and foreign: "Contour (Source event) \<noteq> MyContour (config c)"
    and unknown: "Operation event \<noteq> ''INSERT''" "Operation event \<noteq> ''UPDATE''"
      "Operation event \<noteq> ''DELETE''"
    and fresh: "\<not> processed (store (db c)) (EventID event)"
  shows "(\<exists>err. fst (processMessage unmarshal now c) = Some (ApplyEventFailed err))
       \<and> filter is_dml (issued (db c) (db (Start_turn unmarshal now c))) = []
       \<and> (faults (db c) = [] \<longrightarrow>
            fst (processMessage unmarshal now c) =
              Some (ApplyEventFailed (ApplyDMLFailed (UnknownOperation (Operation event))))
            \<and> issued (db c) (db (Start_turn unmarshal now c)) =
                [BeginTx, SelectProcessedEvent (EventID event), SetConstraintsAllDeferred,
                 RollbackTx])
       \<and> committed (consumer (Start_turn unmarshal now c)) = committed (consumer c)
       \<and> (acknowledged (consumer (Start_turn unmarshal now c)) m
            \<longleftrightarrow> acknowledged (consumer c) m)
       \<and> (\<forall>later. msg_Topic later = msg_Topic m \<longrightarrow>
                   msg_Partition later = msg_Partition m \<longrightarrow>
                   msg_Offset m \<le> msg_Offset later \<longrightarrow>
                   acknowledged (commit_offset later (consumer (Start_turn unmarshal now c))) m)
       \<and> inbox (consumer (Start_turn unmarshal now c)) = rest
       \<and> store (db (Start_turn unmarshal now c)) = store (db c)
       \<and> errorLog (Start_turn unmarshal now c) =
           errorLog c @ [''Failed to apply event'', ''Failed to process message'']
       \<and> failedCount (Start_turn unmarshal now c) = failedCount c + 1
       \<and> processedCount (Start_turn unmarshal now c) = processedCount c
       \<and> skippedCount (Start_turn unmarshal now c) = skippedCount c"
proof -
  let ?c0 = "c\<lparr>consumer := (consumer c)\<lparr>inbox := rest\<rparr>\<rparr>"
  obtain r1 c1 where ap: "applyEvent now ?c0 event = (r1, c1)" by force
  from fresh have "\<not> processed (store (db ?c0)) (EventID event)" by simp
  from applyEvent_unknown [OF unknown this ap]
  obtain err where r1: "r1 = Some err"
    and quiet: "filter is_dml (issued (db c) (db c1)) = []"
    and exact: "faults (db c) = [] \<longrightarrow>
                  err = ApplyDMLFailed (UnknownOperation (Operation event))
                  \<and> issued (db c) (db c1) =
                      [BeginTx, SelectProcessedEvent (EventID event),
                       SetConstraintsAllDeferred, RollbackTx]"
    by auto
  from ap r1 have st: "store (db c1) = store (db c)" by (auto dest: applyEvent_failed)
  note fr = applyEvent_frame [OF ap]
  have pm: "processMessage unmarshal now c =
              (Some (ApplyEventFailed err),
               c1\<lparr>errorLog := errorLog c1 @ [''Failed to apply event'']\<rparr>)"
    using polled parsed foreign ap r1
    by (simp add: processMessage_def Poll_message shouldProcess_def)
  have covered: "\<forall>later. msg_Topic later = msg_Topic m \<longrightarrow>
                   msg_Partition later = msg_Partition m \<longrightarrow>
                   msg_Offset m \<le> msg_Offset later \<longrightarrow>
                   acknowledged (commit_offset later (consumer (Start_turn unmarshal now c))) m"
    by (simp add: acknowledged_commit_offset)
  show ?thesis
    using exact quiet st fr covered by (simp add: pm Start_turn_def acknowledged_def)
qed

lemma example_poisoned_facts:
  "inbox (consumer example_poisoned) = PolledMessage example_poison # []"
  "example_unmarshal (msg_Value example_poison) = Some example_merge"
  "Contour (Source example_merge) \<noteq> MyContour (config example_poisoned)"
  "Operation example_merge \<noteq> ''INSERT''"
  "Operation example_merge \<noteq> ''UPDATE''"
  "Operation example_merge \<noteq> ''DELETE''"
  "\<not> processed (store (db example_poisoned)) (EventID example_merge)"
  "faults (db example_poisoned) = []"
  by (simp_all add: example_poisoned_def example_consumer_def example_unmarshal_def
        example_poison_def example_merge_def example_event_def example_config_def
        example_tx_def processed_def)

theorem unknown_operation_fails_unacknowledged_witness:
  "inbox (consumer example_poisoned) = [PolledMessage example_poison]
   \<and> example_unmarshal (msg_Value example_poison) = Some example_merge
   \<and> Contour (Source example_merge) \<noteq> MyContour (config example_poisoned)
   \<and> Operation example_merge = ''MERGE''
   \<and> \<not> processed (store (db example_poisoned)) (EventID example_merge)
   \<and> faults (db example_poisoned) = []
   \<and> fst (processMessage example_unmarshal 3 example_poisoned) =
       Some (ApplyEventFailed (ApplyDMLFailed (UnknownOperation ''MERGE'')))
   \<and> issued (db example_poisoned) (db (Start_turn example_unmarshal 3 example_poisoned)) =
       [BeginTx, SelectProcessedEvent ''e-7'', SetConstraintsAllDeferred, RollbackTx]
   \<and> committed (consumer (Start_turn example_unmarshal 3 example_poisoned)) = []
   \<and> \<not> acknowledged (consumer (Start_turn example_unmarshal 3 example_poisoned)) example_poison
   \<and> acknowledged
       (commit_offset example_next_message
          (consumer (Start_turn example_unmarshal 3 example_poisoned)))
       example_poison
   \<and> failedCount (Start_turn example_unmarshal 3 example_poisoned) = 1"
proof -
  let ?after = "Start_turn example_unmarshal 3 example_poisoned"
  have op: "Operation example_merge = ''MERGE''" "EventID example_merge = ''e-7''"
    by (simp_all add: example_merge_def example_event_def)
  have start: "committed (consumer example_poisoned) = []" "failedCount example_poisoned = 0"
    "\<not> acknowledged (consumer example_poisoned) example_poison"
    by (simp_all add: example_poisoned_def example_consumer_def acknowledged_def)
  have later: "msg_Topic example_next_message = msg_Topic example_poison"
    "msg_Partition example_next_message = msg_Partition example_poison"
    "msg_Offset example_poison \<le> msg_Offset example_next_message"
    by (simp_all add: example_next_message_def example_poison_def)
  note inst = unknown_operation_fails_unacknowledged
         [where unmarshal = example_unmarshal and c = example_poisoned and m = example_poison
            and rest = "[]" and event = example_merge and now = 3,
          OF example_poisoned_facts(1-7)]
  from inst example_poisoned_facts(8) op start
  have "fst (processMessage example_unmarshal 3 example_poisoned) =
          Some (ApplyEventFailed (ApplyDMLFailed (UnknownOperation ''MERGE'')))"
    and "issued (db example_poisoned) (db ?after) =
           [BeginTx, SelectProcessedEvent ''e-7'', SetConstraintsAllDeferred, RollbackTx]"
    and "committed (consumer ?after) = []"
    and "\<not> acknowledged (consumer ?after) example_poison"
    and "failedCount ?after = 1"
    by simp_all
  moreover from inst later
  have "acknowledged (commit_offset example_next_message (consumer ?after)) example_poison"
    by blast
  ultimately show ?thesis
    using example_poisoned_facts op by simp
qed

text \<open>
  C8 as the specification states it fails: after the turn that processed the message
  of the unknown operation no offset is committed, so the message is not
  acknowledged to the bus.
\<close>

theorem unknown_operation_acknowledged_counterexample:
  "example_unmarshal (msg_Value example_poison) = Some example_merge
   \<and> Operation example_merge = ''MERGE''
   \<and> inbox (consumer example_poisoned) = [PolledMessage example_poison]
   \<and> committed (consumer (Start_turn example_unmarshal 3 example_poisoned)) = []
   \<and> \<not> acknowledged (consumer (Start_turn example_unmarshal 3 example_poisoned)) example_poison
   \<and> failedCount (Start_turn example_unmarshal 3 example_poisoned) = 1"
  by (simp add: Start_turn_def processMessage_def Poll_def applyEvent_def shouldProcess_def
        example_poisoned_def example_consumer_def example_unmarshal_def example_poison_def
        example_merge_def example_event_def example_config_def example_tx_def example_row_def
        send_def Exec_def processed_def Apply_def rollback_def acknowledged_def)

section \<open>Capture and the consumer's session\<close>

lemma trigger_suppressed_iff:
  "generic_replication_trigger s TG_OP tbl OLD NEW = [] \<longleftrightarrow>
     session_replication_role s = ''replica''
     \<or> (TG_OP \<noteq> ''INSERT'' \<and> TG_OP \<noteq> ''UPDATE'' \<and> TG_OP \<noteq> ''DELETE'')"
  by (simp add: generic_replication_trigger_def)

lemma Connect_session:
  "Connect cfg reachable = Some s \<Longrightarrow>
   session_replication_role s = ''origin''
   \<and> application_name s = ApplicationName cfg"
  by (auto simp: Connect_def open_session_def Connect_dsn_def split: if_splits)

lemma Connect_never_suppresses:
  "Connect cfg reachable = Some s \<Longrightarrow>
   generic_replication_trigger s ''INSERT'' tbl OLD NEW =
     [\<lparr>qi_table_name = tbl, qi_operation = ''INSERT'', qi_record_data = VMap NEW\<rparr>]"
  by (auto dest!: Connect_session simp: generic_replication_trigger_def)

text \<open>
  C1 at a concrete input. The consumer connects with the session identity
  \<^verbatim>\<open>replicator_consumer\<close>; the session has that \<^verbatim>\<open>application_name\<close> and the default
  \<^verbatim>\<open>session_replication_role\<close>; an insert of a row on that session makes the
  after-trigger write one queue row.
\<close>

theorem consumer_session_is_captured:
  "Connect example_db_config True =
     Some \<lparr>application_name = ''replicator_consumer'', session_replication_role = ''origin''\<rparr>
   \<and> generic_replication_trigger
        \<lparr>application_name = ''replicator_consumer'', session_replication_role = ''origin''\<rparr>
        ''INSERT'' ''users'' [] example_new_row =
      [\<lparr>qi_table_name = ''users'', qi_operation = ''INSERT'',
        qi_record_data = VMap example_new_row\<rparr>]"
  by (simp add: Connect_def open_session_def Connect_dsn_def example_db_config_def
        generic_replication_trigger_def)

section \<open>The events the publisher builds\<close>

lemma NewReplicationEvent_INSERT:
  "Before (NewReplicationEvent uuid now contour database tbl ''INSERT'' rd) = None"
  "After (NewReplicationEvent uuid now contour database tbl ''INSERT'' rd) = rd"
  by (simp_all add: NewReplicationEvent_def)

lemma NewReplicationEvent_UPDATE:
  "Before (NewReplicationEvent uuid now contour database tbl ''UPDATE'' rd) = None"
  "After (NewReplicationEvent uuid now contour database tbl ''UPDATE'' rd) = rd"
  by (simp_all add: NewReplicationEvent_def)

lemma NewReplicationEvent_DELETE:
  "Before (NewReplicationEvent uuid now contour database tbl ''DELETE'' rd) = rd"
  "After (NewReplicationEvent uuid now contour database tbl ''DELETE'' rd) = None"
  by (simp_all add: NewReplicationEvent_def)

lemma NewReplicationEvent_fields:
  "EventID (NewReplicationEvent uuid now contour database tbl operation rd) = uuid"
  "Operation (NewReplicationEvent uuid now contour database tbl operation rd) = operation"
  "PrimaryKey (NewReplicationEvent uuid now contour database tbl operation rd) =
     (case lookup rd ''id'' of Some k \<Rightarrow> Some [(''id'', k)] | None \<Rightarrow> Some [])"
  by (simp_all add: NewReplicationEvent_def Let_def)

lemma images_by_operation:
  assumes "session_replication_role s \<noteq> ''replica''"
  shows "map (\<lambda>q. (Before (NewReplicationEvent uuid now contour database
                              (rq_Table (queued serial t q)) (rq_Operation (queued serial t q))
                              (RecordData (queued serial t q))),
                    After (NewReplicationEvent uuid now contour database
                              (rq_Table (queued serial t q)) (rq_Operation (queued serial t q))
                              (RecordData (queued serial t q)))))
           (generic_replication_trigger s ''INSERT'' tbl OLD NEW) = [(None, Some NEW)]"
    and "map (\<lambda>q. (Before (NewReplicationEvent uuid now contour database
                              (rq_Table (queued serial t q)) (rq_Operation (queued serial t q))
                              (RecordData (queued serial t q))),
                    After (NewReplicationEvent uuid now contour database
                              (rq_Table (queued serial t q)) (rq_Operation (queued serial t q))
                              (RecordData (queued serial t q)))))
           (generic_replication_trigger s ''DELETE'' tbl OLD NEW) = [(Some OLD, None)]"
    and "map (\<lambda>q. (Before (NewReplicationEvent uuid now contour database
                              (rq_Table (queued serial t q)) (rq_Operation (queued serial t q))
                              (RecordData (queued serial t q))),
                    After (NewReplicationEvent uuid now contour database
                              (rq_Table (queued serial t q)) (rq_Operation (queued serial t q))
                              (RecordData (queued serial t q)))))
           (generic_replication_trigger s ''UPDATE'' tbl OLD NEW) =
             [(None, Some [(''before'', VMap OLD), (''after'', VMap NEW)])]"
  using assms
  by (simp_all add: generic_replication_trigger_def queued_def NewReplicationEvent_def)

text \<open>
  C6 at a concrete input. The after-trigger stores both images of the update of
  row 1 in the queue row, under \<^verbatim>\<open>before\<close> and \<^verbatim>\<open>after\<close>. The event the publisher
  builds from that queue row has no \<^verbatim>\<open>before\<close>, and its \<^verbatim>\<open>after\<close> is the whole
  stored document, the two images nested in it, and not the post-image.
\<close>

theorem update_event_drops_images:
  "map (queued 12 0)
     (generic_replication_trigger example_writer ''UPDATE'' ''users'' example_row example_row_v2)
     = [example_queued_update]
   \<and> RecordData example_queued_update =
       Some [(''before'', VMap example_row), (''after'', VMap example_row_v2)]
   \<and> Before (NewReplicationEvent ''uuid-1'' 0 ''A'' ''app'' (rq_Table example_queued_update)
               (rq_Operation example_queued_update) (RecordData example_queued_update))
       = None
   \<and> After (NewReplicationEvent ''uuid-1'' 0 ''A'' ''app'' (rq_Table example_queued_update)
              (rq_Operation example_queued_update) (RecordData example_queued_update))
       = Some [(''before'', VMap example_row), (''after'', VMap example_row_v2)]
   \<and> Before (NewReplicationEvent ''uuid-1'' 0 ''A'' ''app'' (rq_Table example_queued_update)
               (rq_Operation example_queued_update) (RecordData example_queued_update))
       \<noteq> Some example_row
   \<and> After (NewReplicationEvent ''uuid-1'' 0 ''A'' ''app'' (rq_Table example_queued_update)
              (rq_Operation example_queued_update) (RecordData example_queued_update))
       \<noteq> Some example_row_v2"
  by (simp add: generic_replication_trigger_def queued_def example_writer_def
        example_queued_update_def NewReplicationEvent_def example_row_v2_def example_row_def)

section \<open>The message key\<close>

lemma key_of_flat_row:
  "PrimaryKeyValue record = [] \<Longrightarrow> lookup (RecordData record) ''id'' = Some k \<Longrightarrow>
   partitionKey sprint record
     (NewReplicationEvent uuid now contour database (rq_Table record) (rq_Operation record)
        (RecordData record)) = sprint k"
  by (simp add: partitionKey_def ExtractPartitionKey_def NewReplicationEvent_fields lookup_def)

lemma key_of_trigger_update:
  "q \<in> set (generic_replication_trigger s ''UPDATE'' tbl OLD NEW) \<Longrightarrow>
   partitionKey sprint (queued serial t q)
     (NewReplicationEvent uuid now contour database (rq_Table (queued serial t q))
        (rq_Operation (queued serial t q)) (RecordData (queued serial t q))) = uuid"
  by (auto simp: generic_replication_trigger_def queued_def partitionKey_def
        ExtractPartitionKey_def NewReplicationEvent_fields lookup_def split: if_splits)

text \<open>
  C7 at a concrete input. The queue row the after-trigger writes for the update of
  row 1 is published under the key \<^verbatim>\<open>uuid-1\<close>, the fresh event id, not under
  \<^verbatim>\<open>1\<close>, the string form of the row's key.
\<close>

theorem update_is_keyed_by_event_id:
  "map (queued 12 0)
     (generic_replication_trigger example_writer ''UPDATE'' ''users'' example_row example_row_v2)
     = [example_queued_update]
   \<and> map_of example_row_v2 ''id'' = Some (VFloat64 1)
   \<and> example_sprint (VFloat64 1) = ''1''
   \<and> publishRecord example_sprint example_toJSON ''uuid-1'' 0 example_publisher_config
        example_producer example_queued_update
      = (None, \<lparr>produced = [(''users_changes'', ''uuid-1'', ''event uuid-1'')],
                produce_faults = []\<rparr>)"
  by (simp add: generic_replication_trigger_def queued_def example_writer_def
        example_queued_update_def example_row_v2_def example_row_def example_sprint_def
        publishRecord_def NewReplicationEvent_def example_toJSON_def Produce_def
        example_producer_def example_publisher_config_def partitionKey_def
        ExtractPartitionKey_def lookup_def)

end
